theory Spec2Isabelle
  imports Complex_Main
begin

section \<open>Telecom reliability pipeline: CDR and PCMD ingestion\<close>

text \<open>
  A shallow embedding of \<^verbatim>\<open>01_data_ingestion.py\<close>, a declarative pipeline of tables:
  two bronze event streams (CDR, PCMD), a static tower view, two silver tables (events
  joined with towers under data-quality expectations), two minute-level gold tables and the
  hour- and day-level gold tables of the CDR stream.

  A table is the list of its rows in processing (arrival) order. Every table function
  takes the tables it reads as arguments and returns the complete result over them. A
  nullable column is an \<open>option\<close>, with \<open>None\<close> for SQL \<open>NULL\<close>. Timestamps are integers,
  microseconds since the epoch; \<open>event_ts\<close> is nullable like every column of the bronze
  tables, whose schema is inferred from the files. Durations and coordinates are exact
  rationals: floating-point rounding is not modelled. Counts are natural numbers: the
  64-bit range of a count column is not modelled.
\<close>

subsection \<open>Column expressions\<close>

text \<open>SQL comparison of two nullable values: \<open>NULL\<close> when either side is \<open>NULL\<close>.\<close>

definition sql_eq :: "'a option \<Rightarrow> 'a option \<Rightarrow> bool option" where
  "sql_eq a b = (case a of None \<Rightarrow> None
                 | Some x \<Rightarrow> (case b of None \<Rightarrow> None | Some y \<Rightarrow> Some (x = y)))"

definition sql_gt :: "rat option \<Rightarrow> rat option \<Rightarrow> bool option" where
  "sql_gt a b = (case a of None \<Rightarrow> None
                 | Some x \<Rightarrow> (case b of None \<Rightarrow> None | Some y \<Rightarrow> Some (x > y)))"

text \<open>\<^verbatim>\<open>c IS NOT NULL\<close> is never \<open>NULL\<close> itself.\<close>

definition is_not_null :: "'a option \<Rightarrow> bool option" where
  "is_not_null a = Some (a \<noteq> None)"

definition F_lit :: "'a \<Rightarrow> 'a option" where
  "F_lit v = Some v"

text \<open>\<^verbatim>\<open>F.when(cond, value)\<close> without \<^verbatim>\<open>otherwise\<close>: \<open>NULL\<close> unless the condition is true.\<close>

definition F_when :: "bool option \<Rightarrow> 'a option \<Rightarrow> 'a option" where
  "F_when c v = (if c = Some True then v else None)"

subsection \<open>Aggregate functions over the values of one column in one group\<close>

fun non_null :: "'a option list \<Rightarrow> 'a list" where
  "non_null [] = []"
| "non_null (None # vs) = non_null vs"
| "non_null (Some x # vs) = x # non_null vs"

text \<open>\<^verbatim>\<open>F.count(col)\<close> counts the non-null values.\<close>

definition F_count :: "'a option list \<Rightarrow> nat" where
  "F_count vs = length (non_null vs)"

text \<open>\<^verbatim>\<open>F.avg\<close>, \<^verbatim>\<open>F.max\<close>, \<^verbatim>\<open>F.min\<close> skip nulls and are \<open>NULL\<close> when no value is left.\<close>

definition F_avg :: "rat option list \<Rightarrow> rat option" where
  "F_avg vs = (case non_null vs of [] \<Rightarrow> None
               | x # xs \<Rightarrow> Some (sum_list (x # xs) / of_nat (length (x # xs))))"

definition F_max :: "rat option list \<Rightarrow> rat option" where
  "F_max vs = (case non_null vs of [] \<Rightarrow> None | x # xs \<Rightarrow> Some (fold max xs x))"

definition F_min :: "rat option list \<Rightarrow> rat option" where
  "F_min vs = (case non_null vs of [] \<Rightarrow> None | x # xs \<Rightarrow> Some (fold min xs x))"

text \<open>
  \<^verbatim>\<open>F.sum\<close> is only applied to the count columns of the minute table, which \<^verbatim>\<open>F.count\<close>
  produced and which are never null.
\<close>

definition F_sum :: "nat list \<Rightarrow> nat" where
  "F_sum vs = sum_list vs"

text \<open>\<^verbatim>\<open>F.first(col)\<close>: the value in the first row of the group, null or not.\<close>

definition F_first :: "'a option list \<Rightarrow> 'a option" where
  "F_first vs = (case vs of [] \<Rightarrow> None | v # _ \<Rightarrow> v)"

subsection \<open>Time windows and grouping\<close>

definition minute :: int where "minute = 60 * 1000000"
definition hour :: int where "hour = 60 * minute"
definition day :: int where "day = 24 * hour"

text \<open>
  \<^verbatim>\<open>F.window(ts, duration)\<close> without a slide is a tumbling window aligned to the epoch;
  \<open>window_start\<close> is its \<^verbatim>\<open>window.start\<close>.
\<close>

definition window_start :: "int \<Rightarrow> int \<Rightarrow> int" where
  "window_start dur ts = ts - ts mod dur"

text \<open>
  \<^verbatim>\<open>groupBy\<close>: one group per distinct key, holding the rows of that key in processing
  order. Spark leaves the order of the groups open; the properties below do not depend on
  it.
\<close>

definition group_by :: "('r \<Rightarrow> 'k) \<Rightarrow> 'r list \<Rightarrow> ('k \<times> 'r list) list" where
  "group_by f rs = map (\<lambda>k. (k, filter (\<lambda>r. f r = k) rs)) (remdups (map f rs))"

text \<open>
  \<^verbatim>\<open>groupBy\<close> on a key that holds \<^verbatim>\<open>F.window\<close> of a nullable time column. \<^verbatim>\<open>F.window\<close>
  assigns no window to a row whose time is \<open>NULL\<close> and Spark filters such rows out
  before it groups: a row whose key is \<open>None\<close> is in no group.
\<close>

definition group_by_window :: "('r \<Rightarrow> 'k option) \<Rightarrow> 'r list \<Rightarrow> ('k \<times> 'r list) list" where
  "group_by_window f rs =
     map (\<lambda>k. (k, filter (\<lambda>r. f r = Some k) rs)) (remdups (List.map_filter f rs))"

subsection \<open>Tables\<close>

text \<open>The columns \<open>static_tower_data\<close> selects from the tower file.\<close>

record tower =
  GlobalID :: "string option"
  City :: "string option"
  County :: "string option"
  State :: "string option"
  Longitude :: "rat option"
  Latitude :: "rat option"

text \<open>The columns of the bronze tables that the pipeline reads.\<close>

record event =
  towerId :: "string option"
  event_ts :: "int option"

record cdr = event +
  type :: "string option"
  status :: "string option"

record pcmd = event +
  ProcedureId :: "string option"
  ProcedureDuration :: "rat option"

text \<open>
  The columns shared by the gold tables. \<open>date\<close> is the start of the row's window; the
  hour and day tables name that column \<open>datetime\<close>.
\<close>

record gold =
  date :: int
  towerId :: "string option"
  Latitude :: "rat option"
  Longitude :: "rat option"
  City :: "string option"
  County :: "string option"
  State :: "string option"

record cdr_gold = gold +
  answered :: nat
  dropped :: nat
  missed :: nat
  call :: nat
  text' :: nat
  totalRecords_CDR :: nat

record pcmd_gold = gold +
  avg_dur_request_to_release_bearer :: "rat option"
  avg_dur_notification_data_sent_to_UE :: "rat option"
  avg_dur_request_to_setup_bearer :: "rat option"
  max_dur_request_to_release_bearer :: "rat option"
  max_dur_notification_data_sent_to_UE :: "rat option"
  max_dur_request_to_setup_bearer :: "rat option"
  min_dur_request_to_release_bearer :: "rat option"
  min_dur_notification_data_sent_to_UE :: "rat option"
  min_dur_request_to_setup_bearer :: "rat option"
  totalRecords_PCMD :: nat

subsection \<open>Silver layer: stream-static join under expectations\<close>

text \<open>
  \<^verbatim>\<open>df.join(df_towers, df.towerId == df_towers.GlobalID)\<close>: an inner join. A joined row
  is the pair of the event and the tower; an event gives one row per matching tower.
\<close>

definition join :: "('a event_scheme) list \<Rightarrow> tower list \<Rightarrow> ('a event_scheme \<times> tower) list" where
  "join df df_towers =
     concat (map (\<lambda>e. map (\<lambda>t. (e, t))
                        (filter (\<lambda>t. sql_eq (event.towerId e) (GlobalID t) = Some True) df_towers))
                 df)"

text \<open>
  An expectation is a name, a constraint on the rows of the table's query and what happens
  to a row that violates it: \<^verbatim>\<open>@dlt.expect\<close> keeps the row and records the violation,
  \<^verbatim>\<open>@dlt.expect_or_drop\<close> drops the row. A row violates a constraint that does not
  evaluate to true.
\<close>

datatype on_violation = WARN | DROP

type_synonym 'r expectation = "string \<times> ('r \<Rightarrow> bool option) \<times> on_violation"

definition violates :: "'r expectation \<Rightarrow> 'r \<Rightarrow> bool" where
  "violates x r = (case x of (n, c, a) \<Rightarrow> c r \<noteq> Some True)"

definition dropped_by :: "'r expectation list \<Rightarrow> 'r \<Rightarrow> bool" where
  "dropped_by xs r = list_ex (\<lambda>x. snd (snd x) = DROP \<and> violates x r) xs"

text \<open>The names of the expectations a row violates: its quality flags.\<close>

definition flags :: "'r expectation list \<Rightarrow> 'r \<Rightarrow> string list" where
  "flags xs r = map fst (filter (\<lambda>x. violates x r) xs)"

definition apply_expectations :: "'r expectation list \<Rightarrow> 'r list \<Rightarrow> 'r list" where
  "apply_expectations xs rows = filter (\<lambda>r. \<not> dropped_by xs r) rows"

text \<open>
  A table with expectations: the rows of its query that no expectation drops, and the
  data-quality record of the table, which holds for each expectation the number of rows
  of the query that violate it. A row that violates \<^verbatim>\<open>@dlt.expect\<close> carries no mark of
  its own: it is counted there.
\<close>

definition dlt_table :: "'r expectation list \<Rightarrow> 'r list \<Rightarrow> 'r list \<times> (string \<times> nat) list" where
  "dlt_table xs query =
     (apply_expectations xs query,
      map (\<lambda>x. (fst x, length (filter (\<lambda>r. violates x r) query))) xs)"

definition cdr_expectations :: "(cdr \<times> tower) expectation list" where
  "cdr_expectations =
     [(''towerId'', \<lambda>r. is_not_null (event.towerId (fst r)), DROP),
      (''type'', \<lambda>r. is_not_null (type (fst r)), DROP)]"

definition pcmd_expectations :: "(pcmd \<times> tower) expectation list" where
  "pcmd_expectations =
     [(''towerId'', \<lambda>r. is_not_null (event.towerId (fst r)), DROP),
      (''ProcedureId'', \<lambda>r. is_not_null (ProcedureId (fst r)), DROP),
      (''ProcedureDuration'', \<lambda>r. sql_gt (ProcedureDuration (fst r)) (F_lit 0), WARN)]"

definition cdr_stream_silver :: "cdr list \<Rightarrow> tower list \<Rightarrow> (cdr \<times> tower) list" where
  "cdr_stream_silver cdr_stream_bronze static_tower_data =
     fst (dlt_table cdr_expectations (join cdr_stream_bronze static_tower_data))"

definition pcmd_stream_silver :: "pcmd list \<Rightarrow> tower list \<Rightarrow> (pcmd \<times> tower) list" where
  "pcmd_stream_silver pcmd_stream_bronze static_tower_data =
     fst (dlt_table pcmd_expectations (join pcmd_stream_bronze static_tower_data))"

text \<open>The data-quality records of the two silver tables.\<close>

definition cdr_stream_silver_quality :: "cdr list \<Rightarrow> tower list \<Rightarrow> (string \<times> nat) list" where
  "cdr_stream_silver_quality cdr_stream_bronze static_tower_data =
     snd (dlt_table cdr_expectations (join cdr_stream_bronze static_tower_data))"


subsection \<open>Gold layer: aggregates per tower and minute\<close>

text \<open>
  The grouping key \<^verbatim>\<open>(F.window("event_ts", duration), "towerId")\<close> of a silver row:
  the start of its window and its tower, or \<open>None\<close> when \<open>event_ts\<close> is \<open>NULL\<close>.
\<close>

definition window_key ::
  "int \<Rightarrow> ('a event_scheme \<times> tower) \<Rightarrow> (int \<times> string option) option" where
  "window_key dur r =
     (case event_ts (fst r) of None \<Rightarrow> None
      | Some ts \<Rightarrow> Some (window_start dur ts, event.towerId (fst r)))"

text \<open>
  The aggregate row of one group. \<^verbatim>\<open>window.start\<close> and \<^verbatim>\<open>towerId\<close> are grouping columns,
  constant over the group, so \<^verbatim>\<open>F.first("window.start")\<close> is the key's window start.
\<close>

definition cdr_minute_agg :: "int \<times> string option \<Rightarrow> (cdr \<times> tower) list \<Rightarrow> cdr_gold" where
  "cdr_minute_agg k g =
     \<lparr> date = fst k,
       towerId = snd k,
       Latitude = F_first (map (\<lambda>r. tower.Latitude (snd r)) g),
       Longitude = F_first (map (\<lambda>r. tower.Longitude (snd r)) g),
       City = F_first (map (\<lambda>r. tower.City (snd r)) g),
       County = F_first (map (\<lambda>r. tower.County (snd r)) g),
       State = F_first (map (\<lambda>r. tower.State (snd r)) g),
       answered = F_count (map (\<lambda>r. F_when (sql_eq (status (fst r)) (F_lit ''answered'')) (F_lit True)) g),
       dropped = F_count (map (\<lambda>r. F_when (sql_eq (status (fst r)) (F_lit ''dropped'')) (F_lit True)) g),
       missed = F_count (map (\<lambda>r. F_when (sql_eq (status (fst r)) (F_lit ''missed'')) (F_lit True)) g),
       call = F_count (map (\<lambda>r. F_when (sql_eq (type (fst r)) (F_lit ''call'')) (F_lit True)) g),
       text' = F_count (map (\<lambda>r. F_when (sql_eq (type (fst r)) (F_lit ''text'')) (F_lit True)) g),
       totalRecords_CDR = F_count (map (\<lambda>r. F_lit (1::nat)) g) \<rparr>"

definition cdr_stream_minute_gold :: "(cdr \<times> tower) list \<Rightarrow> cdr_gold list" where
  "cdr_stream_minute_gold cdr_stream_silver_rows =
     map (\<lambda>(k, g). cdr_minute_agg k g)
         (group_by_window (window_key minute) cdr_stream_silver_rows)"

text \<open>\<^verbatim>\<open>F.when(F.col("ProcedureId") == p, F.col("ProcedureDuration"))\<close> over a group.\<close>

definition dur_of :: "string \<Rightarrow> (pcmd \<times> tower) list \<Rightarrow> rat option list" where
  "dur_of p g = map (\<lambda>r. F_when (sql_eq (ProcedureId (fst r)) (F_lit p)) (ProcedureDuration (fst r))) g"

definition pcmd_minute_agg :: "int \<times> string option \<Rightarrow> (pcmd \<times> tower) list \<Rightarrow> pcmd_gold" where
  "pcmd_minute_agg k g =
     \<lparr> date = fst k,
       towerId = snd k,
       Latitude = F_first (map (\<lambda>r. tower.Latitude (snd r)) g),
       Longitude = F_first (map (\<lambda>r. tower.Longitude (snd r)) g),
       City = F_first (map (\<lambda>r. tower.City (snd r)) g),
       County = F_first (map (\<lambda>r. tower.County (snd r)) g),
       State = F_first (map (\<lambda>r. tower.State (snd r)) g),
       avg_dur_request_to_release_bearer = F_avg (dur_of ''11'' g),
       avg_dur_notification_data_sent_to_UE = F_avg (dur_of ''15'' g),
       avg_dur_request_to_setup_bearer = F_avg (dur_of ''16'' g),
       max_dur_request_to_release_bearer = F_max (dur_of ''11'' g),
       max_dur_notification_data_sent_to_UE = F_max (dur_of ''15'' g),
       max_dur_request_to_setup_bearer = F_max (dur_of ''16'' g),
       min_dur_request_to_release_bearer = F_min (dur_of ''11'' g),
       min_dur_notification_data_sent_to_UE = F_min (dur_of ''15'' g),
       min_dur_request_to_setup_bearer = F_min (dur_of ''16'' g),
       totalRecords_PCMD = F_count (map (\<lambda>r. F_lit (1::nat)) g) \<rparr>"

definition pcmd_stream_minute_gold :: "(pcmd \<times> tower) list \<Rightarrow> pcmd_gold list" where
  "pcmd_stream_minute_gold pcmd_stream_silver_rows =
     map (\<lambda>(k, g). pcmd_minute_agg k g)
         (group_by_window (window_key minute) pcmd_stream_silver_rows)"

subsection \<open>Gold layer: hour and day tables of the CDR stream\<close>

text \<open>The grouping key \<^verbatim>\<open>(F.window("date", duration), "towerId")\<close> of a minute row.\<close>

definition rollup_key :: "int \<Rightarrow> cdr_gold \<Rightarrow> int \<times> string option" where
  "rollup_key dur m = (window_start dur (date m), gold.towerId m)"

text \<open>The aggregate list shared, word for word, by the hour and the day table.\<close>

definition cdr_rollup_agg :: "int \<times> string option \<Rightarrow> cdr_gold list \<Rightarrow> cdr_gold" where
  "cdr_rollup_agg k g =
     \<lparr> date = fst k,
       towerId = snd k,
       Latitude = F_first (map gold.Latitude g),
       Longitude = F_first (map gold.Longitude g),
       City = F_first (map gold.City g),
       County = F_first (map gold.County g),
       State = F_first (map gold.State g),
       answered = F_sum (map answered g),
       dropped = F_sum (map dropped g),
       missed = F_sum (map missed g),
       call = F_sum (map call g),
       text' = F_sum (map text' g),
       totalRecords_CDR = F_sum (map totalRecords_CDR g) \<rparr>"

definition cdr_stream_hour_gold :: "cdr_gold list \<Rightarrow> cdr_gold list" where
  "cdr_stream_hour_gold cdr_stream_minute_gold_rows =
     map (\<lambda>(k, g). cdr_rollup_agg k g) (group_by (rollup_key hour) cdr_stream_minute_gold_rows)"

definition cdr_stream_day_gold :: "cdr_gold list \<Rightarrow> cdr_gold list" where
  "cdr_stream_day_gold cdr_stream_minute_gold_rows =
     map (\<lambda>(k, g). cdr_rollup_agg k g) (group_by (rollup_key day) cdr_stream_minute_gold_rows)"

subsection \<open>The pipeline and its buckets\<close>

text \<open>The gold tables the pipeline publishes for given bronze streams and tower view.\<close>

record gold_tables =
  minute_cdr :: "cdr_gold list"
  minute_pcmd :: "pcmd_gold list"
  hour_cdr :: "cdr_gold list"
  day_cdr :: "cdr_gold list"

definition pipeline :: "cdr list \<Rightarrow> pcmd list \<Rightarrow> tower list \<Rightarrow> gold_tables" where
  "pipeline cdr_stream_bronze pcmd_stream_bronze static_tower_data =
     \<lparr> minute_cdr = cdr_stream_minute_gold (cdr_stream_silver cdr_stream_bronze static_tower_data),
       minute_pcmd = pcmd_stream_minute_gold (pcmd_stream_silver pcmd_stream_bronze static_tower_data),
       hour_cdr = cdr_stream_hour_gold
                    (cdr_stream_minute_gold (cdr_stream_silver cdr_stream_bronze static_tower_data)),
       day_cdr = cdr_stream_day_gold
                   (cdr_stream_minute_gold (cdr_stream_silver cdr_stream_bronze static_tower_data)) \<rparr>"

text \<open>The rows of a gold table for one window start and tower: the bucket of that key.\<close>

definition bucket :: "('a gold_scheme) list \<Rightarrow> int \<times> string option \<Rightarrow> ('a gold_scheme) list" where
  "bucket tbl k = filter (\<lambda>b. (date b, gold.towerId b) = k) tbl"

text \<open>The six count columns of a CDR row and the nine duration columns of a PCMD row.\<close>

definition counts :: "cdr_gold \<Rightarrow> nat list" where
  "counts b = [dropped b, answered b, missed b, text' b, call b, totalRecords_CDR b]"

definition dur_stats :: "pcmd_gold \<Rightarrow> rat option list" where
  "dur_stats b =
     [avg_dur_request_to_release_bearer b, avg_dur_notification_data_sent_to_UE b,
      avg_dur_request_to_setup_bearer b,
      max_dur_request_to_release_bearer b, max_dur_notification_data_sent_to_UE b,
      max_dur_request_to_setup_bearer b,
      min_dur_request_to_release_bearer b, min_dur_notification_data_sent_to_UE b,
      min_dur_request_to_setup_bearer b]"

subsection \<open>Inputs of the scenarios\<close>

text \<open>The time of day \<open>h:m:s\<close> on the first day of the epoch, in microseconds.\<close>

definition clock :: "int \<Rightarrow> int \<Rightarrow> int \<Rightarrow> int" where
  "clock h m s = (h * 3600 + m * 60 + s) * 1000000"

text \<open>The tower of the scenarios: \<open>T1\<close> in city \<open>X\<close> at latitude 40, longitude -75.\<close>

definition tower_T1 :: tower where
  "tower_T1 = \<lparr> GlobalID = Some ''T1'', City = Some ''X'', County = None, State = None,
                Longitude = Some (- 75), Latitude = Some 40 \<rparr>"

definition cdr_event :: "string \<Rightarrow> int \<Rightarrow> string \<Rightarrow> string option \<Rightarrow> cdr" where
  "cdr_event t ts ty st =
     \<lparr> event.towerId = Some t, event_ts = Some ts, type = Some ty, status = st \<rparr>"

definition pcmd_event :: "string \<Rightarrow> int \<Rightarrow> string \<Rightarrow> rat \<Rightarrow> pcmd" where
  "pcmd_event t ts p d =
     \<lparr> event.towerId = Some t, event_ts = Some ts, ProcedureId = Some p,
       ProcedureDuration = Some d \<rparr>"

text \<open>The two enriched rows of Scenario A; the scenario leaves their types open.\<close>

definition row_A1 :: "cdr \<times> tower" where
  "row_A1 = (cdr_event ''T1'' (clock 10 0 15) ''text'' (Some ''dropped''), tower_T1)"

definition row_A2 :: "cdr \<times> tower" where
  "row_A2 = (cdr_event ''T1'' (clock 10 0 45) ''call'' (Some ''answered''), tower_T1)"

text \<open>Enriched PCMD rows of tower \<open>T1\<close> in the minute starting 10:00:00.\<close>

definition row_P1 :: "pcmd \<times> tower" where
  "row_P1 = (pcmd_event ''T1'' (clock 10 0 15) ''11'' 10, tower_T1)"

definition row_P2 :: "pcmd \<times> tower" where
  "row_P2 = (pcmd_event ''T1'' (clock 10 0 45) ''11'' (- 5), tower_T1)"

text \<open>An enriched CDR row with a null status.\<close>

definition row_N :: "cdr \<times> tower" where
  "row_N = (cdr_event ''T1'' (clock 10 0 30) ''call'' None, tower_T1)"

text \<open>The minute row of tower \<open>T1\<close> starting at 10:\<open>i\<close>:00 with total 10.\<close>

definition row_B :: "int \<Rightarrow> cdr_gold" where
  "row_B i = \<lparr> date = clock 10 i 0, towerId = Some ''T1'', Latitude = Some 40,
               Longitude = Some (- 75), City = Some ''X'', County = None, State = None,
               answered = 10, dropped = 0, missed = 0, call = 10, text' = 0,
               totalRecords_CDR = 10 \<rparr>"

text \<open>
  The tracked procedure ids, each with the average, maximum and minimum column that
  \<open>pcmd_stream_minute_gold\<close> computes for it.
\<close>

definition tracked ::
  "(string \<times> (pcmd_gold \<Rightarrow> rat option) \<times> (pcmd_gold \<Rightarrow> rat option) \<times> (pcmd_gold \<Rightarrow> rat option)) list" where
  "tracked =
     [(''11'', avg_dur_request_to_release_bearer, max_dur_request_to_release_bearer,
       min_dur_request_to_release_bearer),
      (''15'', avg_dur_notification_data_sent_to_UE, max_dur_notification_data_sent_to_UE,
       min_dur_notification_data_sent_to_UE),
      (''16'', avg_dur_request_to_setup_bearer, max_dur_request_to_setup_bearer,
       min_dur_request_to_setup_bearer)]"

text \<open>An enriched PCMD row of a procedure that is not tracked.\<close>

definition row_U :: "pcmd \<times> tower" where
  "row_U = (pcmd_event ''T1'' (clock 10 0 50) ''99'' 3, tower_T1)"

text \<open>Two enriched CDR rows of tower \<open>T1\<close>: the row of 10:10:00 arrives before that of 10:00:15.\<close>

definition row_L1 :: "cdr \<times> tower" where
  "row_L1 = (cdr_event ''T1'' (clock 10 10 0) ''call'' (Some ''answered''), tower_T1)"

definition row_L2 :: "cdr \<times> tower" where
  "row_L2 = (cdr_event ''T1'' (clock 10 0 15) ''call'' (Some ''dropped''), tower_T1)"

text \<open>Enriched rows of tower \<open>T1\<close> whose \<open>event_ts\<close> is null.\<close>

definition row_Z :: "cdr \<times> tower" where
  "row_Z = (\<lparr> event.towerId = Some ''T1'', event_ts = None, type = Some ''call'',
              status = Some ''dropped'' \<rparr>, tower_T1)"

definition row_Y :: "pcmd \<times> tower" where
  "row_Y = (\<lparr> event.towerId = Some ''T1'', event_ts = None, ProcedureId = Some ''11'',
              ProcedureDuration = Some 7 \<rparr>, tower_T1)"

subsection \<open>The watermark policy in the specification's words\<close>

text \<open>
  The specification seals a window once event time has advanced past
  \<open>windowStart + windowDuration + allowedLateness\<close>. Event time has advanced as far as the
  latest event time among the rows that have arrived. \<open>spec_sealed\<close> follows those words;
  it is not part of the pipeline.
\<close>

definition spec_sealed :: "int \<Rightarrow> ('a event_scheme \<times> tower) list \<Rightarrow> int \<Rightarrow> bool" where
  "spec_sealed allowedLateness arrived windowStart =
     list_ex (\<lambda>x. case event_ts (fst x) of None \<Rightarrow> False
                   | Some ts \<Rightarrow> ts > windowStart + minute + allowedLateness) arrived"

section \<open>Properties\<close>

subsection \<open>Counting and grouping\<close>

lemma non_null_map_when:
  "non_null (map (\<lambda>r. F_when (sql_eq (c r) (F_lit v)) (F_lit True)) g) =
     map (\<lambda>r. True) (filter (\<lambda>r. c r = Some v) g)"
  by (induction g) (auto simp: F_when_def sql_eq_def F_lit_def split: option.splits)

lemma F_count_when:
  "F_count (map (\<lambda>r. F_when (sql_eq (c r) (F_lit v)) (F_lit True)) g) =
     length (filter (\<lambda>r. c r = Some v) g)"
  by (simp add: F_count_def non_null_map_when)

lemma F_count_lit: "F_count (map (\<lambda>r. F_lit x) g) = length g"
  by (induction g) (auto simp: F_count_def F_lit_def)

lemma filter_eq_distinct:
  "distinct ks \<Longrightarrow> filter (\<lambda>x. x = k) ks = (if k \<in> set ks then [k] else [])"
  by (induction ks) auto

text \<open>A grouped table has one row per key that occurs, aggregated over the rows of that key.\<close>

lemma group_by_bucket:
  assumes "\<And>k g. (date (agg k g), gold.towerId (agg k g)) = k"
  shows "bucket (map (\<lambda>(k, g). agg k g) (group_by f rs)) k =
           (if k \<in> f ` set rs then [agg k (filter (\<lambda>r. f r = k) rs)] else [])"
proof -
  have "bucket (map (\<lambda>(k, g). agg k g) (group_by f rs)) k =
        map (\<lambda>k. agg k (filter (\<lambda>r. f r = k) rs)) (filter (\<lambda>x. x = k) (remdups (map f rs)))"
    by (simp add: bucket_def group_by_def filter_map comp_def assms)
  also have "\<dots> = (if k \<in> f ` set rs then [agg k (filter (\<lambda>r. f r = k) rs)] else [])"
    by (simp add: filter_eq_distinct)
  finally show ?thesis .
qed

lemma set_map_filter: "k \<in> set (List.map_filter f rs) \<longleftrightarrow> Some k \<in> f ` set rs"
  by (auto simp: List.map_filter_def image_iff) (metis option.sel)+

lemma group_by_window_bucket:
  assumes "\<And>k g. (date (agg k g), gold.towerId (agg k g)) = k"
  shows "bucket (map (\<lambda>(k, g). agg k g) (group_by_window f rs)) k =
           (if Some k \<in> f ` set rs then [agg k (filter (\<lambda>r. f r = Some k) rs)] else [])"
proof -
  have "bucket (map (\<lambda>(k, g). agg k g) (group_by_window f rs)) k =
        map (\<lambda>k. agg k (filter (\<lambda>r. f r = Some k) rs))
            (filter (\<lambda>x. x = k) (remdups (List.map_filter f rs)))"
    by (simp add: bucket_def group_by_window_def filter_map comp_def assms)
  also have "\<dots> = (if Some k \<in> f ` set rs then [agg k (filter (\<lambda>r. f r = Some k) rs)] else [])"
    by (simp add: filter_eq_distinct set_map_filter)
  finally show ?thesis .
qed

lemma window_key_Some:
  "window_key d r = Some k \<longleftrightarrow>
     (\<exists>ts. event_ts (fst r) = Some ts \<and> k = (window_start d ts, event.towerId (fst r)))"
  by (auto simp: window_key_def split: option.splits)

lemmas scenario_defs = row_A1_def row_A2_def cdr_event_def pcmd_event_def clock_def minute_def
  hour_def day_def window_key_def window_start_def

lemmas table_defs = group_by_window_def List.map_filter_def join_def sql_eq_def dlt_table_def
  apply_expectations_def dropped_by_def violates_def is_not_null_def

subsection \<open>The CDR minute table\<close>

lemma cdr_minute_agg_key: "(date (cdr_minute_agg k g), gold.towerId (cdr_minute_agg k g)) = k"
  by (simp add: cdr_minute_agg_def)

lemma cdr_minute_bucket:
  "bucket (cdr_stream_minute_gold rs) k =
     (if Some k \<in> window_key minute ` set rs
      then [cdr_minute_agg k (filter (\<lambda>r. window_key minute r = Some k) rs)] else [])"
  unfolding cdr_stream_minute_gold_def by (rule group_by_window_bucket) (rule cdr_minute_agg_key)

lemma counts_cdr_minute_agg:
  "counts (cdr_minute_agg k g) =
     [length (filter (\<lambda>r. status (fst r) = Some ''dropped'') g),
      length (filter (\<lambda>r. status (fst r) = Some ''answered'') g),
      length (filter (\<lambda>r. status (fst r) = Some ''missed'') g),
      length (filter (\<lambda>r. type (fst r) = Some ''text'') g),
      length (filter (\<lambda>r. type (fst r) = Some ''call'') g),
      length g]"
  by (simp add: counts_def cdr_minute_agg_def F_count_when F_count_lit)

lemma counts_nth:
  "dropped b = counts b ! 0" "answered b = counts b ! 1" "missed b = counts b ! 2"
  "text' b = counts b ! 3" "call b = counts b ! 4" "totalRecords_CDR b = counts b ! 5"
  by (simp_all add: counts_def)

lemma sum_list_bucket_counts:
  "map (\<lambda>f. sum_list (map f (bucket (cdr_stream_minute_gold rs) k)))
       [dropped, answered, missed, text', call, totalRecords_CDR] =
   counts (cdr_minute_agg k (filter (\<lambda>r. window_key minute r = Some k) rs))"
proof (cases "Some k \<in> window_key minute ` set rs")
  case True
  then show ?thesis by (simp add: cdr_minute_bucket counts_def)
next
  case False
  then have "filter (\<lambda>r. window_key minute r = Some k) rs = []"
    by (force simp: filter_empty_conv image_iff)
  with False show ?thesis
    by (simp add: cdr_minute_bucket counts_cdr_minute_agg)
qed

text \<open>The sum of a count column over a bucket: the count itself, or 0 for an absent bucket.\<close>

lemma bucket_sums:
  "sum_list (map dropped (bucket (cdr_stream_minute_gold rs) k)) =
     length (filter (\<lambda>r. status (fst r) = Some ''dropped'') (filter (\<lambda>r. window_key minute r = Some k) rs))"
  "sum_list (map answered (bucket (cdr_stream_minute_gold rs) k)) =
     length (filter (\<lambda>r. status (fst r) = Some ''answered'') (filter (\<lambda>r. window_key minute r = Some k) rs))"
  "sum_list (map missed (bucket (cdr_stream_minute_gold rs) k)) =
     length (filter (\<lambda>r. status (fst r) = Some ''missed'') (filter (\<lambda>r. window_key minute r = Some k) rs))"
  "sum_list (map text' (bucket (cdr_stream_minute_gold rs) k)) =
     length (filter (\<lambda>r. type (fst r) = Some ''text'') (filter (\<lambda>r. window_key minute r = Some k) rs))"
  "sum_list (map call (bucket (cdr_stream_minute_gold rs) k)) =
     length (filter (\<lambda>r. type (fst r) = Some ''call'') (filter (\<lambda>r. window_key minute r = Some k) rs))"
  "sum_list (map totalRecords_CDR (bucket (cdr_stream_minute_gold rs) k)) =
     length (filter (\<lambda>r. window_key minute r = Some k) rs)"
  using sum_list_bucket_counts [of rs k] by (simp_all add: counts_cdr_minute_agg)

lemma cdr_minute_bucket_append:
  "window_key minute r = Some k \<Longrightarrow>
   bucket (cdr_stream_minute_gold (rs @ [r])) k =
     [cdr_minute_agg k (filter (\<lambda>x. window_key minute x = Some k) rs @ [r])]"
  by (simp add: cdr_minute_bucket)

lemma cdr_minute_bucket_other:
  "window_key minute r \<noteq> Some k \<Longrightarrow>
     bucket (cdr_stream_minute_gold (rs @ [r])) k = bucket (cdr_stream_minute_gold rs) k"
  by (auto simp: cdr_minute_bucket)

lemma scenario_A_table:
  "minute_cdr (pipeline [cdr_event ''T1'' (clock 10 0 15) ty1 (Some ''dropped''),
                         cdr_event ''T1'' (clock 10 0 45) ty2 (Some ''answered'')] ps [tower_T1]) =
     [\<lparr> date = clock 10 0 0, towerId = Some ''T1'', Latitude = Some 40, Longitude = Some (- 75),
        City = Some ''X'', County = None, State = None,
        answered = 1, dropped = 1, missed = 0,
        call = of_bool (ty1 = ''call'') + of_bool (ty2 = ''call''),
        text' = of_bool (ty1 = ''text'') + of_bool (ty2 = ''text''),
        totalRecords_CDR = 2 \<rparr>]"
  by (simp add: pipeline_def cdr_stream_minute_gold_def cdr_stream_silver_def table_defs
      cdr_expectations_def window_key_def window_start_def minute_def clock_def
      cdr_event_def tower_T1_def cdr_minute_agg_def F_first_def F_count_def F_when_def F_lit_def)

text \<open>
  Claim C1. Every enriched CDR row \<open>r\<close> of the silver table that has an event time has
  exactly one row in the minute table under the key (floor of its event time to the minute,
  its tower), and the counters of that row count the silver rows of the same key by status,
  by type and in total. When \<open>r\<close> arrives after the rows \<open>silver\<close>, the bucket of its key
  has each status and type counter raised by one where \<open>r\<close> matches it and the total raised
  by one (an absent bucket counting as zero), and every other bucket is unchanged. In
  Scenario A, the two events of tower \<open>T1\<close> at 10:00:15 (dropped) and 10:00:45 (answered)
  give the single minute row starting 10:00:00 with dropped 1, answered 1, missed 0,
  total 2 and city X.
\<close>

theorem window_aggregator_cdr:
  fixes silver :: "(cdr \<times> tower) list" and r :: "cdr \<times> tower"
  shows
  "(r \<in> set silver \<and> event_ts (fst r) = Some ts \<longrightarrow>
     (\<exists>b. bucket (cdr_stream_minute_gold silver)
             (window_start minute ts, event.towerId (fst r)) = [b] \<and>
          dropped b = length [x \<leftarrow> silver. window_key minute x = window_key minute r \<and> status (fst x) = Some ''dropped''] \<and>
          answered b = length [x \<leftarrow> silver. window_key minute x = window_key minute r \<and> status (fst x) = Some ''answered''] \<and>
          missed b = length [x \<leftarrow> silver. window_key minute x = window_key minute r \<and> status (fst x) = Some ''missed''] \<and>
          text' b = length [x \<leftarrow> silver. window_key minute x = window_key minute r \<and> type (fst x) = Some ''text''] \<and>
          call b = length [x \<leftarrow> silver. window_key minute x = window_key minute r \<and> type (fst x) = Some ''call''] \<and>
          totalRecords_CDR b = length [x \<leftarrow> silver. window_key minute x = window_key minute r])) \<and>
   (window_key minute r = Some k \<longrightarrow>
     (\<exists>b'. bucket (cdr_stream_minute_gold (silver @ [r])) k = [b'] \<and>
        dropped b' = sum_list (map dropped (bucket (cdr_stream_minute_gold silver) k))
                     + of_bool (status (fst r) = Some ''dropped'') \<and>
        answered b' = sum_list (map answered (bucket (cdr_stream_minute_gold silver) k))
                     + of_bool (status (fst r) = Some ''answered'') \<and>
        missed b' = sum_list (map missed (bucket (cdr_stream_minute_gold silver) k))
                     + of_bool (status (fst r) = Some ''missed'') \<and>
        text' b' = sum_list (map text' (bucket (cdr_stream_minute_gold silver) k))
                     + of_bool (type (fst r) = Some ''text'') \<and>
        call b' = sum_list (map call (bucket (cdr_stream_minute_gold silver) k))
                     + of_bool (type (fst r) = Some ''call'') \<and>
        totalRecords_CDR b' =
          sum_list (map totalRecords_CDR (bucket (cdr_stream_minute_gold silver) k)) + 1)) \<and>
   (\<forall>k'. window_key minute r \<noteq> Some k' \<longrightarrow>
      bucket (cdr_stream_minute_gold (silver @ [r])) k' = bucket (cdr_stream_minute_gold silver) k') \<and>
   minute_cdr (pipeline [cdr_event ''T1'' (clock 10 0 15) ty1 (Some ''dropped''),
                         cdr_event ''T1'' (clock 10 0 45) ty2 (Some ''answered'')] ps [tower_T1]) =
     [\<lparr> date = clock 10 0 0, towerId = Some ''T1'', Latitude = Some 40, Longitude = Some (- 75),
        City = Some ''X'', County = None, State = None,
        answered = 1, dropped = 1, missed = 0,
        call = of_bool (ty1 = ''call'') + of_bool (ty2 = ''call''),
        text' = of_bool (ty1 = ''text'') + of_bool (ty2 = ''text''),
        totalRecords_CDR = 2 \<rparr>]"
  (is "(?timed \<longrightarrow> ?counted) \<and> (?key \<longrightarrow> ?raised) \<and> ?others \<and> ?scenario")
proof (intro conjI impI allI)
  assume t: ?timed
  let ?k = "(window_start minute ts, event.towerId (fst r))"
  from t have k: "window_key minute r = Some ?k" by (simp add: window_key_def)
  with t have "bucket (cdr_stream_minute_gold silver) ?k =
      [cdr_minute_agg ?k (filter (\<lambda>x. window_key minute x = Some ?k) silver)]"
    by (force simp: cdr_minute_bucket image_iff)
  then show ?counted
    by (simp add: counts_nth counts_cdr_minute_agg k conj_commute)
next
  assume ?key
  then show ?raised
    by (simp add: cdr_minute_bucket_append bucket_sums counts_nth counts_cdr_minute_agg)
next
  fix k' assume "window_key minute r \<noteq> Some k'"
  then show "bucket (cdr_stream_minute_gold (silver @ [r])) k' =
             bucket (cdr_stream_minute_gold silver) k'"
    by (rule cdr_minute_bucket_other)
next
  show ?scenario by (rule scenario_A_table)
qed

theorem window_aggregator_cdr_witness:
  "row_A2 \<in> set [row_A1, row_A2] \<and> event_ts (fst row_A2) = Some (clock 10 0 45) \<and>
   window_key minute row_A2 = Some (clock 10 0 0, Some ''T1'') \<and>
   (\<exists>b. bucket (cdr_stream_minute_gold [row_A1, row_A2]) (clock 10 0 0, Some ''T1'') = [b] \<and>
        dropped b = 1 \<and> answered b = 1 \<and> missed b = 0 \<and> text' b = 1 \<and> call b = 1 \<and>
        totalRecords_CDR b = 2) \<and>
   (\<exists>b'. bucket (cdr_stream_minute_gold ([row_A1, row_A2] @ [row_A2])) (clock 10 0 0, Some ''T1'') = [b'] \<and>
        totalRecords_CDR b' =
          sum_list (map totalRecords_CDR
            (bucket (cdr_stream_minute_gold [row_A1, row_A2]) (clock 10 0 0, Some ''T1''))) + 1) \<and>
   window_key minute row_A2 \<noteq> Some (clock 10 1 0, Some ''T1'') \<and>
   bucket (cdr_stream_minute_gold ([row_A1, row_A2] @ [row_A2])) (clock 10 1 0, Some ''T1'') =
   bucket (cdr_stream_minute_gold [row_A1, row_A2]) (clock 10 1 0, Some ''T1'')"
proof -
  note T = window_aggregator_cdr [of row_A2 "[row_A1, row_A2]" "clock 10 0 45"
      "(clock 10 0 0, Some ''T1'')"]
  have m: "row_A2 \<in> set [row_A1, row_A2] \<and> event_ts (fst row_A2) = Some (clock 10 0 45)"
    by (simp add: row_A2_def cdr_event_def)
  have w: "window_key minute row_A2 = Some (clock 10 0 0, Some ''T1'')"
    by (simp add: scenario_defs)
  have k: "window_key minute row_A2 \<noteq> Some (clock 10 1 0, Some ''T1'')"
    by (simp add: scenario_defs)
  from T m obtain b where
    b: "bucket (cdr_stream_minute_gold [row_A1, row_A2])
          (window_start minute (clock 10 0 45), event.towerId (fst row_A2)) = [b]"
    and c: "dropped b = length [x \<leftarrow> [row_A1, row_A2]. window_key minute x = window_key minute row_A2 \<and> status (fst x) = Some ''dropped'']"
      "answered b = length [x \<leftarrow> [row_A1, row_A2]. window_key minute x = window_key minute row_A2 \<and> status (fst x) = Some ''answered'']"
      "missed b = length [x \<leftarrow> [row_A1, row_A2]. window_key minute x = window_key minute row_A2 \<and> status (fst x) = Some ''missed'']"
      "text' b = length [x \<leftarrow> [row_A1, row_A2]. window_key minute x = window_key minute row_A2 \<and> type (fst x) = Some ''text'']"
      "call b = length [x \<leftarrow> [row_A1, row_A2]. window_key minute x = window_key minute row_A2 \<and> type (fst x) = Some ''call'']"
      "totalRecords_CDR b = length [x \<leftarrow> [row_A1, row_A2]. window_key minute x = window_key minute row_A2]"
    by blast
  have "(window_start minute (clock 10 0 45), event.towerId (fst row_A2)) =
        (clock 10 0 0, Some ''T1'')"
    by (simp add: scenario_defs)
  with b have b': "bucket (cdr_stream_minute_gold [row_A1, row_A2]) (clock 10 0 0, Some ''T1'') = [b]"
    by simp
  from c have "dropped b = 1 \<and> answered b = 1 \<and> missed b = 0 \<and> text' b = 1 \<and> call b = 1 \<and>
        totalRecords_CDR b = 2"
    by (simp add: scenario_defs)
  with b' have A: "\<exists>b. bucket (cdr_stream_minute_gold [row_A1, row_A2]) (clock 10 0 0, Some ''T1'') = [b] \<and>
        dropped b = 1 \<and> answered b = 1 \<and> missed b = 0 \<and> text' b = 1 \<and> call b = 1 \<and>
        totalRecords_CDR b = 2" by blast
  from T w have B: "\<exists>b'. bucket (cdr_stream_minute_gold ([row_A1, row_A2] @ [row_A2])) (clock 10 0 0, Some ''T1'') = [b'] \<and>
        totalRecords_CDR b' =
          sum_list (map totalRecords_CDR
            (bucket (cdr_stream_minute_gold [row_A1, row_A2]) (clock 10 0 0, Some ''T1''))) + 1"
    by blast
  from T k have "bucket (cdr_stream_minute_gold ([row_A1, row_A2] @ [row_A2])) (clock 10 1 0, Some ''T1'') =
   bucket (cdr_stream_minute_gold [row_A1, row_A2]) (clock 10 1 0, Some ''T1'')" by blast
  with m w k A B show ?thesis by blast
qed


subsection \<open>The silver tables\<close>

lemma sql_eq_True: "sql_eq a b = Some True \<longleftrightarrow> a \<noteq> None \<and> a = b"
  by (cases a; cases b) (simp_all add: sql_eq_def)

lemma set_join:
  "(e, t) \<in> set (join df tw) \<longleftrightarrow>
     e \<in> set df \<and> t \<in> set tw \<and> event.towerId e \<noteq> None \<and> event.towerId e = GlobalID t"
  by (auto simp: join_def sql_eq_True)

lemma join_append: "join (xs @ ys) tw = join xs tw @ join ys tw"
  by (simp add: join_def)


lemma join_unknown:
  "event.towerId e \<notin> GlobalID ` set tw \<Longrightarrow> join [e] tw = []"
  by (auto simp: join_def sql_eq_True filter_empty_conv)

lemma cdr_silver_eq:
  "cdr_stream_silver bronze tw = apply_expectations cdr_expectations (join bronze tw)"
  by (simp add: cdr_stream_silver_def dlt_table_def)

lemma pcmd_silver_eq:
  "pcmd_stream_silver bronze tw = apply_expectations pcmd_expectations (join bronze tw)"
  by (simp add: pcmd_stream_silver_def dlt_table_def)

lemma dropped_by_cdr:
  "dropped_by cdr_expectations r \<longleftrightarrow> event.towerId (fst r) = None \<or> type (fst r) = None"
  by (simp add: dropped_by_def cdr_expectations_def violates_def is_not_null_def)

lemma dropped_by_pcmd:
  "dropped_by pcmd_expectations p \<longleftrightarrow> event.towerId (fst p) = None \<or> ProcedureId (fst p) = None"
  by (simp add: dropped_by_def pcmd_expectations_def violates_def is_not_null_def)

lemma flags_pcmd:
  "event.towerId (fst p) \<noteq> None \<Longrightarrow> ProcedureId (fst p) \<noteq> None \<Longrightarrow>
   ProcedureDuration (fst p) = Some d \<Longrightarrow>
   flags pcmd_expectations p = (if d \<le> 0 then [''ProcedureDuration''] else [])"
  by (auto simp: flags_def pcmd_expectations_def violates_def is_not_null_def sql_gt_def F_lit_def)







lemma pcmd_minute_agg_key: "(date (pcmd_minute_agg k g), gold.towerId (pcmd_minute_agg k g)) = k"
  by (simp add: pcmd_minute_agg_def)

lemma pcmd_minute_bucket:
  "bucket (pcmd_stream_minute_gold rs) k =
     (if Some k \<in> window_key minute ` set rs
      then [pcmd_minute_agg k (filter (\<lambda>r. window_key minute r = Some k) rs)] else [])"
  unfolding pcmd_stream_minute_gold_def by (rule group_by_window_bucket) (rule pcmd_minute_agg_key)

lemma total_pcmd_minute_agg: "totalRecords_PCMD (pcmd_minute_agg k g) = length g"
  by (simp add: pcmd_minute_agg_def F_count_lit)

lemma pcmd_minute_bucket_of_row:
  assumes "r \<in> set rs" "window_key minute r = Some k"
  shows "\<exists>b. bucket (pcmd_stream_minute_gold rs) k = [b] \<and>
             totalRecords_PCMD b = length [x \<leftarrow> rs. window_key minute x = Some k] \<and>
             1 \<le> totalRecords_PCMD b"
proof -
  from assms have "Some k \<in> window_key minute ` set rs" by force
  then have "bucket (pcmd_stream_minute_gold rs) k =
      [pcmd_minute_agg k (filter (\<lambda>x. window_key minute x = Some k) rs)]"
    by (simp add: pcmd_minute_bucket)
  moreover from assms have "1 \<le> length (filter (\<lambda>x. window_key minute x = Some k) rs)"
    by (auto simp: Suc_le_eq filter_empty_conv)
  ultimately show ?thesis by (simp add: total_pcmd_minute_agg)
qed






lemma cdr_silver_unknown:
  "event.towerId e \<notin> GlobalID ` set tw \<Longrightarrow>
     cdr_stream_silver (xs @ e # ys) tw = cdr_stream_silver (xs @ ys) tw"
  using join_append [of "[e]" ys tw]
  by (simp add: cdr_silver_eq join_append join_unknown)

lemma pcmd_silver_unknown:
  "event.towerId e \<notin> GlobalID ` set tw \<Longrightarrow>
     pcmd_stream_silver (xs @ e # ys) tw = pcmd_stream_silver (xs @ ys) tw"
  using join_append [of "[e]" ys tw]
  by (simp add: pcmd_silver_eq join_append join_unknown)

lemma group_by_rows:
  "b \<in> set (map (\<lambda>(k, g). agg k g) (group_by f rs)) \<Longrightarrow>
     \<exists>r \<in> set rs. b = agg (f r) (filter (\<lambda>x. f x = f r) rs)"
  by (auto simp: group_by_def)

lemma silver_tower:
  "r \<in> set (apply_expectations xs (join df tw)) \<Longrightarrow>
     event.towerId (fst r) \<in> GlobalID ` set tw \<and> event.towerId (fst r) \<noteq> None"
  by (cases r) (auto simp: apply_expectations_def set_join)

lemma group_by_tower:
  assumes "\<And>k g. gold.towerId (agg k g) = snd k"
    and "b \<in> set (map (\<lambda>(k, g). agg k g) (group_by f rs))"
  shows "\<exists>r \<in> set rs. gold.towerId b = snd (f r)"
proof -
  from group_by_rows [OF assms(2)] obtain r where
    "r \<in> set rs" "b = agg (f r) (filter (\<lambda>x. f x = f r) rs)" by blast
  then show ?thesis using assms(1) by auto
qed

lemma group_by_window_rows:
  "b \<in> set (map (\<lambda>(k, g). agg k g) (group_by_window f rs)) \<Longrightarrow>
     \<exists>r \<in> set rs. \<exists>k. f r = Some k \<and> b = agg k (filter (\<lambda>x. f x = Some k) rs)"
  by (auto simp: group_by_window_def set_map_filter image_iff) metis

lemma cdr_minute_tower:
  assumes "b \<in> set (cdr_stream_minute_gold rs)"
  shows "\<exists>r \<in> set rs. gold.towerId b = event.towerId (fst r)"
proof -
  from assms obtain r k where "r \<in> set rs" "window_key minute r = Some k"
    "b = cdr_minute_agg k (filter (\<lambda>x. window_key minute x = Some k) rs)"
    unfolding cdr_stream_minute_gold_def by (blast dest: group_by_window_rows)
  then show ?thesis by (auto simp: cdr_minute_agg_def window_key_Some)
qed

lemma pcmd_minute_tower:
  assumes "b \<in> set (pcmd_stream_minute_gold rs)"
  shows "\<exists>r \<in> set rs. gold.towerId b = event.towerId (fst r)"
proof -
  from assms obtain r k where "r \<in> set rs" "window_key minute r = Some k"
    "b = pcmd_minute_agg k (filter (\<lambda>x. window_key minute x = Some k) rs)"
    unfolding pcmd_stream_minute_gold_def by (blast dest: group_by_window_rows)
  then show ?thesis by (auto simp: pcmd_minute_agg_def window_key_Some)
qed

lemma cdr_hour_tower:
  "b \<in> set (cdr_stream_hour_gold ms) \<Longrightarrow> \<exists>m \<in> set ms. gold.towerId b = gold.towerId m"
  unfolding cdr_stream_hour_gold_def
  by (drule group_by_tower [rotated]) (simp_all add: cdr_rollup_agg_def rollup_key_def)

lemma cdr_day_tower:
  "b \<in> set (cdr_stream_day_gold ms) \<Longrightarrow> \<exists>m \<in> set ms. gold.towerId b = gold.towerId m"
  unfolding cdr_stream_day_gold_def
  by (drule group_by_tower [rotated]) (simp_all add: cdr_rollup_agg_def rollup_key_def)

lemma cdr_gold_known_tower:
  assumes "b \<in> set (cdr_stream_minute_gold (cdr_stream_silver cs tw))"
  shows "gold.towerId b \<in> GlobalID ` set tw \<and> gold.towerId b \<noteq> None"
proof -
  from cdr_minute_tower [OF assms] obtain r where
    "r \<in> set (cdr_stream_silver cs tw)" "gold.towerId b = event.towerId (fst r)" by blast
  then show ?thesis using silver_tower [of r cdr_expectations cs tw]
    by (simp add: cdr_silver_eq)
qed

lemma pcmd_gold_known_tower:
  assumes "b \<in> set (pcmd_stream_minute_gold (pcmd_stream_silver ps tw))"
  shows "gold.towerId b \<in> GlobalID ` set tw \<and> gold.towerId b \<noteq> None"
proof -
  from pcmd_minute_tower [OF assms] obtain r where
    "r \<in> set (pcmd_stream_silver ps tw)" "gold.towerId b = event.towerId (fst r)" by blast
  then show ?thesis using silver_tower [of r pcmd_expectations ps tw]
    by (simp add: pcmd_silver_eq)
qed

text \<open>
  Claim C3. A CDR or PCMD event whose towerId is the GlobalID of no tower leaves the silver
  table and every gold table of the pipeline as they are without it, wherever it stands in
  the stream. Every row of the minute, hour and day tables carries the GlobalID of a tower
  of the directory. In Scenario C, a lone CDR event of the unknown tower \<open>T9\<close> leaves all
  gold tables empty.
\<close>

theorem join_drops_unknown_tower:
  fixes e :: cdr and p :: pcmd
  shows
  "(event.towerId e \<notin> GlobalID ` set towers \<longrightarrow>
      cdr_stream_silver (xs @ e # ys) towers = cdr_stream_silver (xs @ ys) towers \<and>
      pipeline (xs @ e # ys) ps towers = pipeline (xs @ ys) ps towers) \<and>
   (event.towerId p \<notin> GlobalID ` set towers \<longrightarrow>
      pcmd_stream_silver (pxs @ p # pys) towers = pcmd_stream_silver (pxs @ pys) towers \<and>
      pipeline cs (pxs @ p # pys) towers = pipeline cs (pxs @ pys) towers) \<and>
   (\<forall>b \<in> set (minute_cdr (pipeline cs ps towers)) \<union> set (hour_cdr (pipeline cs ps towers)) \<union>
          set (day_cdr (pipeline cs ps towers)).
      gold.towerId b \<in> GlobalID ` set towers \<and> gold.towerId b \<noteq> None) \<and>
   (\<forall>b \<in> set (minute_pcmd (pipeline cs ps towers)).
      gold.towerId b \<in> GlobalID ` set towers \<and> gold.towerId b \<noteq> None) \<and>
   pipeline [cdr_event ''T9'' ts ty st] [] [tower_T1] =
     \<lparr> minute_cdr = [], minute_pcmd = [], hour_cdr = [], day_cdr = [] \<rparr>"
  (is "(?ce \<longrightarrow> ?cdr) \<and> (?pe \<longrightarrow> ?pcmd) \<and> ?known_cdr \<and> ?known_pcmd \<and> ?scenario")
proof -
  have 1: ?cdr if ?ce using that by (simp add: pipeline_def cdr_silver_unknown)
  have 2: ?pcmd if ?pe using that by (simp add: pipeline_def pcmd_silver_unknown)
  have 3: ?known_cdr
  proof
    fix b
    assume "b \<in> set (minute_cdr (pipeline cs ps towers)) \<union> set (hour_cdr (pipeline cs ps towers)) \<union>
          set (day_cdr (pipeline cs ps towers))"
    then consider
      "b \<in> set (cdr_stream_minute_gold (cdr_stream_silver cs towers))"
      | "b \<in> set (cdr_stream_hour_gold (cdr_stream_minute_gold (cdr_stream_silver cs towers)))"
      | "b \<in> set (cdr_stream_day_gold (cdr_stream_minute_gold (cdr_stream_silver cs towers)))"
      by (auto simp: pipeline_def)
    then show "gold.towerId b \<in> GlobalID ` set towers \<and> gold.towerId b \<noteq> None"
    proof cases
      case 1
      then show ?thesis by (rule cdr_gold_known_tower)
    next
      case 2
      from cdr_hour_tower [OF 2] obtain m where
        "m \<in> set (cdr_stream_minute_gold (cdr_stream_silver cs towers))"
        "gold.towerId b = gold.towerId m" by blast
      then show ?thesis using cdr_gold_known_tower [of m cs towers] by simp
    next
      case 3
      from cdr_day_tower [OF 3] obtain m where
        "m \<in> set (cdr_stream_minute_gold (cdr_stream_silver cs towers))"
        "gold.towerId b = gold.towerId m" by blast
      then show ?thesis using cdr_gold_known_tower [of m cs towers] by simp
    qed
  qed
  have 4: ?known_pcmd
    by (auto simp: pipeline_def dest: pcmd_gold_known_tower)
  have 5: ?scenario
    by (simp add: pipeline_def cdr_silver_eq pcmd_silver_eq join_def sql_eq_def
        cdr_event_def tower_T1_def apply_expectations_def cdr_stream_minute_gold_def
        pcmd_stream_minute_gold_def cdr_stream_hour_gold_def cdr_stream_day_gold_def group_by_def
        group_by_window_def List.map_filter_def)
  from 1 2 3 4 5 show ?thesis by blast
qed

lemma scenario_minute_rows:
  "cdr_stream_minute_gold (cdr_stream_silver [fst row_A1] [tower_T1]) \<noteq> []"
  "pcmd_stream_minute_gold (pcmd_stream_silver [fst row_P1] [tower_T1]) \<noteq> []"
  by (simp_all add: cdr_stream_minute_gold_def pcmd_stream_minute_gold_def group_by_window_def
      List.map_filter_def window_key_def
      cdr_silver_eq pcmd_silver_eq join_def sql_eq_def apply_expectations_def
      dropped_by_cdr dropped_by_pcmd row_A1_def row_P1_def cdr_event_def pcmd_event_def tower_T1_def)

theorem join_drops_unknown_tower_witness:
  "event.towerId (cdr_event ''T9'' (clock 10 0 15) ''call'' (Some ''dropped''))
     \<notin> GlobalID ` set [tower_T1] \<and>
   pipeline ([fst row_A1] @ cdr_event ''T9'' (clock 10 0 15) ''call'' (Some ''dropped'') # [])
            [fst row_P1] [tower_T1] =
   pipeline ([fst row_A1] @ []) [fst row_P1] [tower_T1] \<and>
   event.towerId (pcmd_event ''T9'' (clock 10 0 15) ''11'' 7) \<notin> GlobalID ` set [tower_T1] \<and>
   pipeline [fst row_A1] ([fst row_P1] @ pcmd_event ''T9'' (clock 10 0 15) ''11'' 7 # []) [tower_T1] =
   pipeline [fst row_A1] ([fst row_P1] @ []) [tower_T1] \<and>
   (\<exists>b \<in> set (minute_cdr (pipeline [fst row_A1] [fst row_P1] [tower_T1])).
      gold.towerId b \<in> GlobalID ` set [tower_T1] \<and> gold.towerId b \<noteq> None) \<and>
   (\<exists>b \<in> set (minute_pcmd (pipeline [fst row_A1] [fst row_P1] [tower_T1])).
      gold.towerId b \<in> GlobalID ` set [tower_T1] \<and> gold.towerId b \<noteq> None)"
proof -
  note T = join_drops_unknown_tower
    [of "cdr_event ''T9'' (clock 10 0 15) ''call'' (Some ''dropped'')" "[tower_T1]"
        "[fst row_A1]" "[]" "[fst row_P1]" "pcmd_event ''T9'' (clock 10 0 15) ''11'' 7"
        "[fst row_P1]" "[]" "[fst row_A1]"]
  have c: "event.towerId (cdr_event ''T9'' (clock 10 0 15) ''call'' (Some ''dropped''))
     \<notin> GlobalID ` set [tower_T1]"
    by (simp add: cdr_event_def tower_T1_def)
  have p: "event.towerId (pcmd_event ''T9'' (clock 10 0 15) ''11'' 7) \<notin> GlobalID ` set [tower_T1]"
    by (simp add: pcmd_event_def tower_T1_def)
  obtain b1 where b1: "b1 \<in> set (minute_cdr (pipeline [fst row_A1] [fst row_P1] [tower_T1]))"
    using scenario_minute_rows(1) by (cases "minute_cdr (pipeline [fst row_A1] [fst row_P1] [tower_T1])")
      (auto simp: pipeline_def)
  obtain b2 where b2: "b2 \<in> set (minute_pcmd (pipeline [fst row_A1] [fst row_P1] [tower_T1]))"
    using scenario_minute_rows(2) by (cases "minute_pcmd (pipeline [fst row_A1] [fst row_P1] [tower_T1])")
      (auto simp: pipeline_def)
  from T c have 1: "pipeline ([fst row_A1] @ cdr_event ''T9'' (clock 10 0 15) ''call'' (Some ''dropped'') # [])
            [fst row_P1] [tower_T1] =
   pipeline ([fst row_A1] @ []) [fst row_P1] [tower_T1]" by blast
  from T p have 2: "pipeline [fst row_A1] ([fst row_P1] @ pcmd_event ''T9'' (clock 10 0 15) ''11'' 7 # []) [tower_T1] =
   pipeline [fst row_A1] ([fst row_P1] @ []) [tower_T1]" by blast
  from T b1 have 3: "gold.towerId b1 \<in> GlobalID ` set [tower_T1] \<and> gold.towerId b1 \<noteq> None"
    by blast
  from T b2 have 4: "gold.towerId b2 \<in> GlobalID ` set [tower_T1] \<and> gold.towerId b2 \<noteq> None"
    by blast
  from c p 1 2 3 4 b1 b2 show ?thesis by blast
qed

text \<open>
  Claim C4. A CDR row with towerId and type present and a null status is not dropped by
  the expectations and, joined with its tower, is a row of the silver table. When it
  arrives with an event time, the minute row of its key has the total raised by one, the call or text counter
  raised by one where the type matches, and the dropped, answered and missed counters
  unchanged (an absent bucket counting as zero).
\<close>

theorem null_status_cdr_flows:
  fixes r :: "cdr \<times> tower"
  shows
  "event.towerId (fst r) \<noteq> None \<and> type (fst r) \<noteq> None \<and> status (fst r) = None \<longrightarrow>
     \<not> dropped_by cdr_expectations r \<and>
     (snd r \<in> set towers \<and> GlobalID (snd r) = event.towerId (fst r) \<longrightarrow>
        r \<in> set (cdr_stream_silver (bronze @ [fst r]) towers)) \<and>
     (window_key minute r = Some k \<longrightarrow>
       (\<exists>b'. bucket (cdr_stream_minute_gold (silver @ [r])) k = [b'] \<and>
          totalRecords_CDR b' =
            sum_list (map totalRecords_CDR (bucket (cdr_stream_minute_gold silver) k)) + 1 \<and>
          call b' = sum_list (map call (bucket (cdr_stream_minute_gold silver) k))
                    + of_bool (type (fst r) = Some ''call'') \<and>
          text' b' = sum_list (map text' (bucket (cdr_stream_minute_gold silver) k))
                    + of_bool (type (fst r) = Some ''text'') \<and>
          dropped b' = sum_list (map dropped (bucket (cdr_stream_minute_gold silver) k)) \<and>
          answered b' = sum_list (map answered (bucket (cdr_stream_minute_gold silver) k)) \<and>
          missed b' = sum_list (map missed (bucket (cdr_stream_minute_gold silver) k))))"
  (is "?h \<longrightarrow> ?kept \<and> (?j \<longrightarrow> ?silver) \<and> (?key \<longrightarrow> ?flows)")
proof
  assume h: ?h
  then have 1: ?kept by (simp add: dropped_by_cdr)
  have 2: ?silver if ?j
  proof -
    from that h have "r \<in> set (join (bronze @ [fst r]) towers)"
      by (cases r) (simp add: set_join)
    with 1 show ?thesis by (simp add: cdr_silver_eq apply_expectations_def)
  qed
  have 3: ?flows if ?key
    using that h
    by (simp add: cdr_minute_bucket_append bucket_sums counts_nth counts_cdr_minute_agg)
  from 1 2 3 show "?kept \<and> (?j \<longrightarrow> ?silver) \<and> (?key \<longrightarrow> ?flows)" by blast
qed

theorem null_status_cdr_flows_witness:
  "event.towerId (fst row_N) \<noteq> None \<and> type (fst row_N) \<noteq> None \<and> status (fst row_N) = None \<and>
   snd row_N \<in> set [tower_T1] \<and> GlobalID (snd row_N) = event.towerId (fst row_N) \<and>
   window_key minute row_N = Some (clock 10 0 0, Some ''T1'') \<and>
   \<not> dropped_by cdr_expectations row_N \<and>
   row_N \<in> set (cdr_stream_silver ([fst row_A1] @ [fst row_N]) [tower_T1]) \<and>
   (\<exists>b'. bucket (cdr_stream_minute_gold ([row_A1] @ [row_N])) (clock 10 0 0, Some ''T1'') = [b'] \<and>
      totalRecords_CDR b' = 2 \<and> call b' = 1 \<and> text' b' = 1 \<and>
      dropped b' = 1 \<and> answered b' = 0 \<and> missed b' = 0)"
proof -
  note T = null_status_cdr_flows [where r = row_N and towers = "[tower_T1]"
      and bronze = "[fst row_A1]" and silver = "[row_A1]" and k = "(clock 10 0 0, Some ''T1'')"]
  have h: "event.towerId (fst row_N) \<noteq> None \<and> type (fst row_N) \<noteq> None \<and> status (fst row_N) = None"
    by (simp add: row_N_def cdr_event_def)
  have j: "snd row_N \<in> set [tower_T1] \<and> GlobalID (snd row_N) = event.towerId (fst row_N)"
    by (simp add: row_N_def cdr_event_def tower_T1_def)
  have k: "window_key minute row_N = Some (clock 10 0 0, Some ''T1'')"
    by (simp add: row_N_def scenario_defs)
  have s: "sum_list (map totalRecords_CDR (bucket (cdr_stream_minute_gold [row_A1]) (clock 10 0 0, Some ''T1''))) = 1"
    "sum_list (map call (bucket (cdr_stream_minute_gold [row_A1]) (clock 10 0 0, Some ''T1''))) = 0"
    "sum_list (map text' (bucket (cdr_stream_minute_gold [row_A1]) (clock 10 0 0, Some ''T1''))) = 1"
    "sum_list (map dropped (bucket (cdr_stream_minute_gold [row_A1]) (clock 10 0 0, Some ''T1''))) = 1"
    "sum_list (map answered (bucket (cdr_stream_minute_gold [row_A1]) (clock 10 0 0, Some ''T1''))) = 0"
    "sum_list (map missed (bucket (cdr_stream_minute_gold [row_A1]) (clock 10 0 0, Some ''T1''))) = 0"
    by (simp_all add: bucket_sums scenario_defs)
  have t: "of_bool (type (fst row_N) = Some ''call'') = (1::nat)"
    "of_bool (type (fst row_N) = Some ''text'') = (0::nat)"
    by (simp_all add: row_N_def cdr_event_def)
  from T h j k have "\<not> dropped_by cdr_expectations row_N \<and>
     row_N \<in> set (cdr_stream_silver ([fst row_A1] @ [fst row_N]) [tower_T1]) \<and>
     (\<exists>b'. bucket (cdr_stream_minute_gold ([row_A1] @ [row_N])) (clock 10 0 0, Some ''T1'') = [b'] \<and>
        totalRecords_CDR b' =
          sum_list (map totalRecords_CDR (bucket (cdr_stream_minute_gold [row_A1]) (clock 10 0 0, Some ''T1''))) + 1 \<and>
        call b' = sum_list (map call (bucket (cdr_stream_minute_gold [row_A1]) (clock 10 0 0, Some ''T1'')))
                  + of_bool (type (fst row_N) = Some ''call'') \<and>
        text' b' = sum_list (map text' (bucket (cdr_stream_minute_gold [row_A1]) (clock 10 0 0, Some ''T1'')))
                  + of_bool (type (fst row_N) = Some ''text'') \<and>
        dropped b' = sum_list (map dropped (bucket (cdr_stream_minute_gold [row_A1]) (clock 10 0 0, Some ''T1''))) \<and>
        answered b' = sum_list (map answered (bucket (cdr_stream_minute_gold [row_A1]) (clock 10 0 0, Some ''T1''))) \<and>
        missed b' = sum_list (map missed (bucket (cdr_stream_minute_gold [row_A1]) (clock 10 0 0, Some ''T1''))))"
    by blast
  then have "\<not> dropped_by cdr_expectations row_N \<and>
     row_N \<in> set (cdr_stream_silver ([fst row_A1] @ [fst row_N]) [tower_T1]) \<and>
     (\<exists>b'. bucket (cdr_stream_minute_gold ([row_A1] @ [row_N])) (clock 10 0 0, Some ''T1'') = [b'] \<and>
      totalRecords_CDR b' = 2 \<and> call b' = 1 \<and> text' b' = 1 \<and>
      dropped b' = 1 \<and> answered b' = 0 \<and> missed b' = 0)"
    unfolding s t by (simp add: numeral_2_eq_2)
  with h j k show ?thesis by blast
qed



subsection \<open>The hour and day tables\<close>

lemma window_start_eq:
  "0 < d \<Longrightarrow> window_start d t = s \<longleftrightarrow> s \<le> t \<and> t < s + d \<and> d dvd s"
proof
  assume d: "0 < d" and "window_start d t = s"
  then have s: "s = t - t mod d" by (simp add: window_start_def)
  have "d dvd t - t mod d" by (simp add: dvd_minus_mod)
  with d s show "s \<le> t \<and> t < s + d \<and> d dvd s" by simp
next
  assume d: "0 < d" and h: "s \<le> t \<and> t < s + d \<and> d dvd s"
  then obtain q where q: "s = d * q" by (auto simp: dvd_def)
  with h d have "(t - s) mod d = t - s" by simp
  moreover have "(t - s) mod d = t mod d" using q by (simp add: mod_diff_right_eq [symmetric])
  ultimately show "window_start d t = s" by (simp add: window_start_def)
qed

lemma cdr_rollup_agg_key: "(date (cdr_rollup_agg k g), gold.towerId (cdr_rollup_agg k g)) = k"
  by (simp add: cdr_rollup_agg_def)

lemma cdr_hour_bucket:
  "bucket (cdr_stream_hour_gold ms) k =
     (if k \<in> rollup_key hour ` set ms
      then [cdr_rollup_agg k (filter (\<lambda>m. rollup_key hour m = k) ms)] else [])"
  unfolding cdr_stream_hour_gold_def by (rule group_by_bucket) (rule cdr_rollup_agg_key)

lemma cdr_day_bucket:
  "bucket (cdr_stream_day_gold ms) k =
     (if k \<in> rollup_key day ` set ms
      then [cdr_rollup_agg k (filter (\<lambda>m. rollup_key day m = k) ms)] else [])"
  unfolding cdr_stream_day_gold_def by (rule group_by_bucket) (rule cdr_rollup_agg_key)

lemma counts_cdr_rollup_agg:
  "counts (cdr_rollup_agg k g) =
     map (\<lambda>f. sum_list (map f g)) [dropped, answered, missed, text', call, totalRecords_CDR]"
  by (simp add: counts_def cdr_rollup_agg_def F_sum_def)

lemma rollup_rows:
  assumes d: "0 < d"
    and h: "h \<in> set (map (\<lambda>(k, g). cdr_rollup_agg k g) (group_by (rollup_key d) ms))"
  shows "counts h = map (\<lambda>f. sum_list (map f
           [m \<leftarrow> ms. gold.towerId m = gold.towerId h \<and> date h \<le> date m \<and> date m < date h + d]))
           [dropped, answered, missed, text', call, totalRecords_CDR]"
proof -
  from group_by_rows [OF h] obtain m0 where m0: "m0 \<in> set ms"
    and eq: "h = cdr_rollup_agg (rollup_key d m0) (filter (\<lambda>x. rollup_key d x = rollup_key d m0) ms)"
    by blast
  from eq have k: "date h = window_start d (date m0)" "gold.towerId h = gold.towerId m0"
    by (simp_all add: cdr_rollup_agg_def rollup_key_def)
  have al: "d dvd date h" using k(1) window_start_eq [OF d, of "date m0" "date h"] by simp
  have c: "counts h = map (\<lambda>f. sum_list (map f (filter (\<lambda>x. rollup_key d x = rollup_key d m0) ms)))
      [dropped, answered, missed, text', call, totalRecords_CDR]"
    by (subst eq) (rule counts_cdr_rollup_agg)
  have "(rollup_key d x = rollup_key d m0) =
        (gold.towerId x = gold.towerId h \<and> date h \<le> date x \<and> date x < date h + d)" for x
    using window_start_eq [OF d, of "date x" "date h"] al k
    by (auto simp: rollup_key_def)
  then have F: "filter (\<lambda>x. rollup_key d x = rollup_key d m0) ms =
      [m \<leftarrow> ms. gold.towerId m = gold.towerId h \<and> date h \<le> date m \<and> date m < date h + d]"
    by simp
  from c show ?thesis unfolding F .
qed

lemma hour_pos: "0 < hour" and day_pos: "0 < day"
  by (simp_all add: hour_def day_def minute_def)

lemma scenario_B_rollup:
  assumes "\<forall>m \<in> set [m1, m2, m3, m4].
             gold.towerId m = Some ''T1'' \<and> window_start hour (date m) = s \<and> totalRecords_CDR m = 10"
  shows "\<exists>h. cdr_stream_hour_gold [m1, m2, m3, m4] = [h] \<and> date h = s \<and>
             gold.towerId h = Some ''T1'' \<and> totalRecords_CDR h = 40"
  using assms
  by (simp add: cdr_stream_hour_gold_def group_by_def rollup_key_def cdr_rollup_agg_def F_sum_def)

text \<open>
  Claim C5. Each count column (dropped, answered, missed, text, call, total) of a row of
  the hour table is the sum of that column over the minute rows of the same tower whose
  start lies in the hour beginning at the row's start; likewise for the day table and the
  day. Every minute row has exactly one hour row and one day row under the key (floor of
  its start, its tower). In Scenario B, four minute rows of tower \<open>T1\<close> in one hour, each
  with total 10, give a single hour row with total 40.
\<close>

theorem rollup_additive:
  "(\<forall>h \<in> set (cdr_stream_hour_gold ms).
      counts h = map (\<lambda>f. sum_list (map f
        [m \<leftarrow> ms. gold.towerId m = gold.towerId h \<and> date h \<le> date m \<and> date m < date h + hour]))
        [dropped, answered, missed, text', call, totalRecords_CDR]) \<and>
   (\<forall>h \<in> set (cdr_stream_day_gold ms).
      counts h = map (\<lambda>f. sum_list (map f
        [m \<leftarrow> ms. gold.towerId m = gold.towerId h \<and> date h \<le> date m \<and> date m < date h + day]))
        [dropped, answered, missed, text', call, totalRecords_CDR]) \<and>
   (\<forall>m \<in> set ms.
      (\<exists>h. bucket (cdr_stream_hour_gold ms) (window_start hour (date m), gold.towerId m) = [h]) \<and>
      (\<exists>h. bucket (cdr_stream_day_gold ms) (window_start day (date m), gold.towerId m) = [h])) \<and>
   ((\<forall>m \<in> set [m1, m2, m3, m4].
       gold.towerId m = Some ''T1'' \<and> window_start hour (date m) = s \<and> totalRecords_CDR m = 10) \<longrightarrow>
    (\<exists>h. cdr_stream_hour_gold [m1, m2, m3, m4] = [h] \<and> date h = s \<and>
         gold.towerId h = Some ''T1'' \<and> totalRecords_CDR h = 40))"
  (is "?hours \<and> ?days \<and> ?exist \<and> (?four \<longrightarrow> ?forty)")
proof -
  have 1: ?hours
    unfolding cdr_stream_hour_gold_def by (intro ballI rollup_rows hour_pos)
  have 2: ?days
    unfolding cdr_stream_day_gold_def by (intro ballI rollup_rows day_pos)
  have 3: ?exist
  proof
    fix m assume "m \<in> set ms"
    then have "rollup_key hour m \<in> rollup_key hour ` set ms"
      "rollup_key day m \<in> rollup_key day ` set ms" by simp_all
    then show "(\<exists>h. bucket (cdr_stream_hour_gold ms) (window_start hour (date m), gold.towerId m) = [h]) \<and>
      (\<exists>h. bucket (cdr_stream_day_gold ms) (window_start day (date m), gold.towerId m) = [h])"
      using cdr_hour_bucket [of ms "rollup_key hour m"] cdr_day_bucket [of ms "rollup_key day m"]
      by (simp add: rollup_key_def)
  qed
  have 4: ?forty if ?four using that by (rule scenario_B_rollup)
  from 1 2 3 4 show ?thesis by blast
qed

lemma scenario_B_hour:
  "cdr_stream_hour_gold [row_B 0, row_B 1, row_B 2, row_B 3] =
     [\<lparr> date = clock 10 0 0, towerId = Some ''T1'', Latitude = Some 40,
        Longitude = Some (- 75), City = Some ''X'', County = None, State = None,
        answered = 40, dropped = 0, missed = 0, call = 40, text' = 0,
        totalRecords_CDR = 40 \<rparr>]"
  by (simp add: cdr_stream_hour_gold_def group_by_def rollup_key_def cdr_rollup_agg_def F_sum_def
      F_first_def row_B_def clock_def window_start_def hour_def minute_def)

theorem rollup_additive_witness:
  "map (\<lambda>m. (gold.towerId m, window_start hour (date m), totalRecords_CDR m))
       [row_B 0, row_B 1, row_B 2, row_B 3] = replicate 4 (Some ''T1'', clock 10 0 0, 10) \<and>
   (\<exists>h. cdr_stream_hour_gold [row_B 0, row_B 1, row_B 2, row_B 3] = [h] \<and>
        date h = clock 10 0 0 \<and> gold.towerId h = Some ''T1'' \<and> totalRecords_CDR h = 40 \<and>
        h \<in> set (cdr_stream_hour_gold [row_B 0, row_B 1, row_B 2, row_B 3]) \<and>
        counts h = map (\<lambda>f. sum_list (map f
          [m \<leftarrow> [row_B 0, row_B 1, row_B 2, row_B 3].
             gold.towerId m = gold.towerId h \<and> date h \<le> date m \<and> date m < date h + hour]))
          [dropped, answered, missed, text', call, totalRecords_CDR] \<and>
        counts h = [0, 40, 0, 0, 40, 40]) \<and>
   row_B 2 \<in> set [row_B 0, row_B 1, row_B 2, row_B 3] \<and>
   (\<exists>h. bucket (cdr_stream_day_gold [row_B 0, row_B 1, row_B 2, row_B 3])
           (window_start day (date (row_B 2)), gold.towerId (row_B 2)) = [h])"
proof -
  note T = rollup_additive [of "[row_B 0, row_B 1, row_B 2, row_B 3]"
      "row_B 0" "row_B 1" "row_B 2" "row_B 3" "clock 10 0 0"]
  have four: "\<forall>m \<in> set [row_B 0, row_B 1, row_B 2, row_B 3].
       gold.towerId m = Some ''T1'' \<and> window_start hour (date m) = clock 10 0 0 \<and>
       totalRecords_CDR m = 10"
    by (simp add: row_B_def clock_def window_start_def hour_def minute_def)
  have m: "row_B 2 \<in> set [row_B 0, row_B 1, row_B 2, row_B 3]" by simp
  from T four obtain h where
    h: "cdr_stream_hour_gold [row_B 0, row_B 1, row_B 2, row_B 3] = [h]"
      "date h = clock 10 0 0" "gold.towerId h = Some ''T1''" "totalRecords_CDR h = 40"
    by blast
  then have mem: "h \<in> set (cdr_stream_hour_gold [row_B 0, row_B 1, row_B 2, row_B 3])" by simp
  with T have c: "counts h = map (\<lambda>f. sum_list (map f
          [m \<leftarrow> [row_B 0, row_B 1, row_B 2, row_B 3].
             gold.towerId m = gold.towerId h \<and> date h \<le> date m \<and> date m < date h + hour]))
          [dropped, answered, missed, text', call, totalRecords_CDR]"
    by blast
  from h(1) have v: "counts h = [0, 40, 0, 0, 40, 40]"
    by (auto simp: scenario_B_hour counts_def)
  from T m have d: "\<exists>h. bucket (cdr_stream_day_gold [row_B 0, row_B 1, row_B 2, row_B 3])
           (window_start day (date (row_B 2)), gold.towerId (row_B 2)) = [h]"
    by blast
  have rows: "map (\<lambda>m. (gold.towerId m, window_start hour (date m), totalRecords_CDR m))
       [row_B 0, row_B 1, row_B 2, row_B 3] = replicate 4 (Some ''T1'', clock 10 0 0, 10)"
    using four by (simp add: numeral_eq_Suc)
  from rows h mem c v m d show ?thesis by blast
qed

text \<open>
  Claim C6. The aggregate of the hour and day tables is associative: for rows \<open>a\<close>, \<open>b\<close>,
  \<open>c\<close> under one key, combining \<open>a\<close> and \<open>b\<close> first and then \<open>c\<close> gives the same row as
  combining \<open>a\<close> with the combination of \<open>b\<close> and \<open>c\<close>. Its combined columns are the six
  sums; it has no maximum or minimum column. Combining two combined groups gives the
  counts of combining all their rows at once.
\<close>

theorem rollup_associative:
  "cdr_rollup_agg k [cdr_rollup_agg k [a, b], c] = cdr_rollup_agg k [a, cdr_rollup_agg k [b, c]] \<and>
   counts (cdr_rollup_agg k [cdr_rollup_agg k xs, cdr_rollup_agg k ys]) =
     counts (cdr_rollup_agg k (xs @ ys))"
  by (simp add: cdr_rollup_agg_def F_sum_def F_first_def counts_def)



subsection \<open>The PCMD minute table\<close>

lemma non_null_append: "non_null (xs @ ys) = non_null xs @ non_null ys"
  by (induction xs rule: non_null.induct) simp_all

lemma non_null_Cons:
  "non_null (v # vs) = (case v of None \<Rightarrow> [] | Some x \<Rightarrow> [x]) @ non_null vs"
  by (cases v) simp_all

lemma non_null_dur_of:
  "non_null (dur_of p g) =
     non_null (map (\<lambda>r. ProcedureDuration (fst r)) (filter (\<lambda>r. ProcedureId (fst r) = Some p) g))"
  by (induction g) (auto simp: dur_of_def F_when_def sql_eq_True F_lit_def non_null_Cons)

lemma set_non_null: "x \<in> set (non_null vs) \<longleftrightarrow> Some x \<in> set vs"
  by (induction vs rule: non_null.induct) auto

lemma F_avg_eq:
  "F_avg vs = (if non_null vs = [] then None
               else Some (sum_list (non_null vs) / of_nat (length (non_null vs))))"
  by (simp add: F_avg_def split: list.splits)

lemma F_max_eq:
  "F_max vs = (if non_null vs = [] then None else Some (Max (set (non_null vs))))"
  by (simp add: F_max_def Max.set_eq_fold [symmetric] split: list.splits)

lemma F_min_eq:
  "F_min vs = (if non_null vs = [] then None else Some (Min (set (non_null vs))))"
  by (simp add: F_min_def Min.set_eq_fold [symmetric] split: list.splits)

lemma tracked_columns:
  "(p, av, mx, mn) \<in> set tracked \<Longrightarrow>
     av (pcmd_minute_agg k g) = F_avg (dur_of p g) \<and>
     mx (pcmd_minute_agg k g) = F_max (dur_of p g) \<and>
     mn (pcmd_minute_agg k g) = F_min (dur_of p g)"
  by (auto simp: tracked_def pcmd_minute_agg_def)

lemma dur_stats_agg:
  "dur_stats (pcmd_minute_agg k g) =
     [F_avg (dur_of ''11'' g), F_avg (dur_of ''15'' g), F_avg (dur_of ''16'' g),
      F_max (dur_of ''11'' g), F_max (dur_of ''15'' g), F_max (dur_of ''16'' g),
      F_min (dur_of ''11'' g), F_min (dur_of ''15'' g), F_min (dur_of ''16'' g)]"
  by (simp add: dur_stats_def pcmd_minute_agg_def)

lemma dur_of_untracked:
  "ProcedureId (fst r) \<noteq> Some p \<Longrightarrow> non_null (dur_of p (g @ [r])) = non_null (dur_of p g)"
  by (simp add: non_null_dur_of)

lemma dur_of_all_untracked:
  "\<forall>x \<in> set g. ProcedureId (fst x) \<noteq> Some p \<Longrightarrow> non_null (dur_of p g) = []"
  by (simp add: non_null_dur_of filter_False)

lemma agg_stats_cong:
  "non_null vs = non_null ws \<Longrightarrow> F_avg vs = F_avg ws \<and> F_max vs = F_max ws \<and> F_min vs = F_min ws"
  by (simp add: F_avg_def F_max_def F_min_def)

lemma scenario_tagged_table:
  "minute_pcmd (pipeline cs [pcmd_event ''T1'' (clock 10 0 15) ''11'' 10,
                            pcmd_event ''T1'' (clock 10 0 45) ''11'' (- 5)] [tower_T1]) =
     [\<lparr> date = clock 10 0 0, towerId = Some ''T1'', Latitude = Some 40, Longitude = Some (- 75),
        City = Some ''X'', County = None, State = None,
        avg_dur_request_to_release_bearer = Some (5 / 2),
        avg_dur_notification_data_sent_to_UE = None,
        avg_dur_request_to_setup_bearer = None,
        max_dur_request_to_release_bearer = Some 10,
        max_dur_notification_data_sent_to_UE = None,
        max_dur_request_to_setup_bearer = None,
        min_dur_request_to_release_bearer = Some (- 5),
        min_dur_notification_data_sent_to_UE = None,
        min_dur_request_to_setup_bearer = None,
        totalRecords_PCMD = 2 \<rparr>]"
  by (simp add: pipeline_def pcmd_stream_minute_gold_def pcmd_silver_eq join_def
      apply_expectations_def dropped_by_pcmd sql_eq_def group_by_window_def List.map_filter_def
      window_key_def
      window_start_def minute_def clock_def pcmd_event_def tower_T1_def pcmd_minute_agg_def
      dur_of_def F_first_def F_count_def F_when_def F_lit_def F_avg_def F_max_def F_min_def)

text \<open>
  Claim C9. A PCMD row with towerId present, a tracked ProcedureId \<open>p\<close> and a duration
  \<open>d\<close> is kept by the expectations whatever the sign of \<open>d\<close> (flagged
  \<open>ProcedureDuration\<close> exactly when \<open>d \<le> 0\<close>), and, when it has an event time, \<open>d\<close> is
  one of the durations \<open>ds\<close> from which the minute row of its key takes the average, the
  minimum and the maximum of procedure \<open>p\<close>: the minimum is at most \<open>d\<close>, the maximum at
  least \<open>d\<close>, the average is the sum of \<open>ds\<close> over their number. For example two events of
  procedure 11 with durations 10 and -5 in one minute give minimum -5, maximum 10 and
  average 5/2.
\<close>

theorem tagged_duration_aggregated:
  fixes r :: "pcmd \<times> tower"
  shows
  "(r \<in> set rows \<and> event.towerId (fst r) \<noteq> None \<and> ProcedureId (fst r) = Some p \<and>
    ProcedureDuration (fst r) = Some d \<and> (p, av, mx, mn) \<in> set tracked \<longrightarrow>
      r \<in> set (apply_expectations pcmd_expectations rows) \<and>
      flags pcmd_expectations r = (if d \<le> 0 then [''ProcedureDuration''] else []) \<and>
      (window_key minute r = Some k \<longrightarrow>
        (\<exists>b ds.
           bucket (pcmd_stream_minute_gold (apply_expectations pcmd_expectations rows)) k = [b] \<and>
           ds = non_null (map (\<lambda>x. ProcedureDuration (fst x))
                  [x \<leftarrow> apply_expectations pcmd_expectations rows.
                     window_key minute x = window_key minute r \<and> ProcedureId (fst x) = Some p]) \<and>
           d \<in> set ds \<and>
           av b = Some (sum_list ds / of_nat (length ds)) \<and>
           mn b = Some (Min (set ds)) \<and> Min (set ds) \<le> d \<and>
           mx b = Some (Max (set ds)) \<and> d \<le> Max (set ds)))) \<and>
   minute_pcmd (pipeline cs [pcmd_event ''T1'' (clock 10 0 15) ''11'' 10,
                            pcmd_event ''T1'' (clock 10 0 45) ''11'' (- 5)] [tower_T1]) =
     [\<lparr> date = clock 10 0 0, towerId = Some ''T1'', Latitude = Some 40, Longitude = Some (- 75),
        City = Some ''X'', County = None, State = None,
        avg_dur_request_to_release_bearer = Some (5 / 2),
        avg_dur_notification_data_sent_to_UE = None,
        avg_dur_request_to_setup_bearer = None,
        max_dur_request_to_release_bearer = Some 10,
        max_dur_notification_data_sent_to_UE = None,
        max_dur_request_to_setup_bearer = None,
        min_dur_request_to_release_bearer = Some (- 5),
        min_dur_notification_data_sent_to_UE = None,
        min_dur_request_to_setup_bearer = None,
        totalRecords_PCMD = 2 \<rparr>]"
  (is "(?h \<longrightarrow> ?kept \<and> ?flag \<and> (?key \<longrightarrow> ?agg)) \<and> ?example")
proof -
  have 1: "?kept \<and> ?flag \<and> (?key \<longrightarrow> ?agg)" if h: ?h
  proof -
    let ?s = "apply_expectations pcmd_expectations rows"
    let ?g = "filter (\<lambda>x. window_key minute x = Some k) ?s"
    let ?ds = "non_null (map (\<lambda>x. ProcedureDuration (fst x))
                [x \<leftarrow> ?s. window_key minute x = window_key minute r \<and> ProcedureId (fst x) = Some p])"
    from h have kept: ?kept by (simp add: apply_expectations_def dropped_by_pcmd)
    from h have flag: ?flag by (simp add: flags_pcmd)
    have ?agg if key: ?key
    proof -
      from kept key have "Some k \<in> window_key minute ` set ?s" by force
      then have b: "bucket (pcmd_stream_minute_gold ?s) k = [pcmd_minute_agg k ?g]"
        by (simp add: pcmd_minute_bucket)
      have ds: "non_null (dur_of p ?g) = ?ds"
        by (simp add: non_null_dur_of conj_commute key)
      from kept h have mem: "d \<in> set ?ds"
        by (auto simp: set_non_null intro!: image_eqI [where x = r])
      then have ne: "?ds \<noteq> []" by auto
      from h have cols: "av (pcmd_minute_agg k ?g) = F_avg (dur_of p ?g)"
        "mx (pcmd_minute_agg k ?g) = F_max (dur_of p ?g)"
        "mn (pcmd_minute_agg k ?g) = F_min (dur_of p ?g)"
        using tracked_columns [of p av mx mn k ?g] by simp_all
      from mem have "Min (set ?ds) \<le> d" "d \<le> Max (set ?ds)" by simp_all
      with b mem ne cols show ?agg
        by (simp add: F_avg_eq F_max_eq F_min_eq ds)
    qed
    with kept flag show ?thesis by blast
  qed
  have 2: ?example by (rule scenario_tagged_table)
  from 1 2 show ?thesis by blast
qed

theorem tagged_duration_aggregated_witness:
  "row_P2 \<in> set [row_P1, row_P2] \<and> event.towerId (fst row_P2) \<noteq> None \<and>
   ProcedureId (fst row_P2) = Some ''11'' \<and> ProcedureDuration (fst row_P2) = Some (- 5) \<and>
   (''11'', avg_dur_request_to_release_bearer, max_dur_request_to_release_bearer,
    min_dur_request_to_release_bearer) \<in> set tracked \<and>
   window_key minute row_P2 = Some (clock 10 0 0, Some ''T1'') \<and>
   row_P2 \<in> set (apply_expectations pcmd_expectations [row_P1, row_P2]) \<and>
   flags pcmd_expectations row_P2 = [''ProcedureDuration''] \<and>
   (\<exists>b. bucket (pcmd_stream_minute_gold (apply_expectations pcmd_expectations [row_P1, row_P2]))
           (clock 10 0 0, Some ''T1'') = [b] \<and>
        avg_dur_request_to_release_bearer b = Some (5 / 2) \<and>
        min_dur_request_to_release_bearer b = Some (- 5) \<and>
        max_dur_request_to_release_bearer b = Some 10)"
proof -
  note T = tagged_duration_aggregated [where r = row_P2 and rows = "[row_P1, row_P2]"
      and p = "''11''" and d = "- 5" and av = avg_dur_request_to_release_bearer
      and mx = max_dur_request_to_release_bearer and mn = min_dur_request_to_release_bearer
      and k = "(clock 10 0 0, Some ''T1'')"]
  have h: "row_P2 \<in> set [row_P1, row_P2] \<and> event.towerId (fst row_P2) \<noteq> None \<and>
    ProcedureId (fst row_P2) = Some ''11'' \<and> ProcedureDuration (fst row_P2) = Some (- 5) \<and>
    (''11'', avg_dur_request_to_release_bearer, max_dur_request_to_release_bearer,
     min_dur_request_to_release_bearer) \<in> set tracked"
    by (simp add: row_P2_def pcmd_event_def tracked_def)
  have k: "window_key minute row_P2 = Some (clock 10 0 0, Some ''T1'')"
    by (simp add: row_P2_def scenario_defs)
  have s: "apply_expectations pcmd_expectations [row_P1, row_P2] = [row_P1, row_P2]"
    by (simp add: apply_expectations_def dropped_by_pcmd row_P1_def row_P2_def pcmd_event_def)
  have ds: "non_null (map (\<lambda>x. ProcedureDuration (fst x))
              [x \<leftarrow> [row_P1, row_P2].
                 window_key minute x = Some (clock 10 0 0, Some ''T1'') \<and>
                 ProcedureId (fst x) = Some ''11'']) =
            [10, - 5]"
    by (simp add: row_P1_def row_P2_def scenario_defs)
  from T h have kept: "row_P2 \<in> set (apply_expectations pcmd_expectations [row_P1, row_P2])"
    and flag: "flags pcmd_expectations row_P2 = (if (- 5 :: rat) \<le> 0 then [''ProcedureDuration''] else [])"
    by blast+
  from T h k obtain b where
    b: "bucket (pcmd_stream_minute_gold (apply_expectations pcmd_expectations [row_P1, row_P2]))
          (clock 10 0 0, Some ''T1'') = [b]"
    and v: "avg_dur_request_to_release_bearer b =
        Some (sum_list (non_null (map (\<lambda>x. ProcedureDuration (fst x))
                [x \<leftarrow> apply_expectations pcmd_expectations [row_P1, row_P2].
                   window_key minute x = window_key minute row_P2 \<and> ProcedureId (fst x) = Some ''11''])) /
              of_nat (length (non_null (map (\<lambda>x. ProcedureDuration (fst x))
                [x \<leftarrow> apply_expectations pcmd_expectations [row_P1, row_P2].
                   window_key minute x = window_key minute row_P2 \<and> ProcedureId (fst x) = Some ''11'']))))"
      "min_dur_request_to_release_bearer b =
        Some (Min (set (non_null (map (\<lambda>x. ProcedureDuration (fst x))
                [x \<leftarrow> apply_expectations pcmd_expectations [row_P1, row_P2].
                   window_key minute x = window_key minute row_P2 \<and> ProcedureId (fst x) = Some ''11'']))))"
      "max_dur_request_to_release_bearer b =
        Some (Max (set (non_null (map (\<lambda>x. ProcedureDuration (fst x))
                [x \<leftarrow> apply_expectations pcmd_expectations [row_P1, row_P2].
                   window_key minute x = window_key minute row_P2 \<and> ProcedureId (fst x) = Some ''11'']))))"
    by blast
  from v have "avg_dur_request_to_release_bearer b = Some (5 / 2) \<and>
        min_dur_request_to_release_bearer b = Some (- 5) \<and>
        max_dur_request_to_release_bearer b = Some 10"
    unfolding k s ds by simp
  with b have "\<exists>b. bucket (pcmd_stream_minute_gold (apply_expectations pcmd_expectations [row_P1, row_P2]))
           (clock 10 0 0, Some ''T1'') = [b] \<and>
        avg_dur_request_to_release_bearer b = Some (5 / 2) \<and>
        min_dur_request_to_release_bearer b = Some (- 5) \<and>
        max_dur_request_to_release_bearer b = Some 10"
    by blast
  with h k kept flag show ?thesis by simp
qed


lemma pcmd_minute_bucket_append:
  "window_key minute r = Some k \<Longrightarrow>
   bucket (pcmd_stream_minute_gold (rs @ [r])) k =
     [pcmd_minute_agg k (filter (\<lambda>x. window_key minute x = Some k) rs @ [r])]"
  by (simp add: pcmd_minute_bucket)

lemma pcmd_minute_bucket_other:
  "window_key minute r \<noteq> Some k \<Longrightarrow>
     bucket (pcmd_stream_minute_gold (rs @ [r])) k = bucket (pcmd_stream_minute_gold rs) k"
  by (auto simp: pcmd_minute_bucket)

lemma dur_stats_untracked:
  assumes "ProcedureId (fst r) \<notin> {Some ''11'', Some ''15'', Some ''16''}"
  shows "dur_stats (pcmd_minute_agg k (g @ [r])) = dur_stats (pcmd_minute_agg k' g)"
  using assms
    agg_stats_cong [OF dur_of_untracked [of r "''11''" g]]
    agg_stats_cong [OF dur_of_untracked [of r "''15''" g]]
    agg_stats_cong [OF dur_of_untracked [of r "''16''" g]]
  by (simp add: dur_stats_agg)

lemma dur_stats_empty: "dur_stats (pcmd_minute_agg k []) = replicate 9 None"
  by (simp add: dur_stats_agg dur_of_def F_avg_def F_max_def F_min_def numeral_eq_Suc)

lemma dur_stats_all_untracked:
  assumes "\<forall>x \<in> set g. ProcedureId (fst x) \<notin> {Some ''11'', Some ''15'', Some ''16''}"
  shows "dur_stats (pcmd_minute_agg k g) = replicate 9 None"
proof -
  from assms have "non_null (dur_of ''11'' g) = []" "non_null (dur_of ''15'' g) = []"
    "non_null (dur_of ''16'' g) = []"
    by (simp_all add: dur_of_all_untracked)
  then show ?thesis
    by (simp add: dur_stats_agg F_avg_eq F_max_eq F_min_eq numeral_eq_Suc)
qed

text \<open>
  Claim C10. When a PCMD row whose ProcedureId is none of 11, 15, 16 arrives with an event
  time, the minute row of its key has \<open>totalRecords_PCMD\<close> raised by one and its nine
  duration columns as before (all null for a new bucket), and every other bucket is
  unchanged. A bucket all of whose rows have such ids has its nine duration columns null
  and \<open>totalRecords_PCMD\<close> equal to the number of its rows.
\<close>

theorem untracked_procedure_counts_only:
  fixes r :: "pcmd \<times> tower"
  shows
  "(ProcedureId (fst r) \<notin> {Some ''11'', Some ''15'', Some ''16''} \<longrightarrow>
     (window_key minute r = Some k \<longrightarrow>
       (\<exists>b'. bucket (pcmd_stream_minute_gold (silver @ [r])) k = [b'] \<and>
          totalRecords_PCMD b' =
            sum_list (map totalRecords_PCMD (bucket (pcmd_stream_minute_gold silver) k)) + 1 \<and>
          dur_stats b' =
            (case bucket (pcmd_stream_minute_gold silver) k of
               [] \<Rightarrow> replicate 9 None | b # _ \<Rightarrow> dur_stats b))) \<and>
     (\<forall>k'. window_key minute r \<noteq> Some k' \<longrightarrow>
        bucket (pcmd_stream_minute_gold (silver @ [r])) k' =
        bucket (pcmd_stream_minute_gold silver) k')) \<and>
   (Some k0 \<in> window_key minute ` set silver \<and>
    (\<forall>x \<in> set silver. window_key minute x = Some k0 \<longrightarrow>
       ProcedureId (fst x) \<notin> {Some ''11'', Some ''15'', Some ''16''}) \<longrightarrow>
     (\<exists>b. bucket (pcmd_stream_minute_gold silver) k0 = [b] \<and>
        dur_stats b = replicate 9 None \<and>
        totalRecords_PCMD b = length [x \<leftarrow> silver. window_key minute x = Some k0]))"
  (is "(?u \<longrightarrow> (?key \<longrightarrow> ?raised) \<and> ?others) \<and> (?only \<longrightarrow> ?nulls)")
proof -
  let ?g = "filter (\<lambda>x. window_key minute x = Some k) silver"
  have 1: ?raised if u: ?u and key: ?key
  proof (cases "Some k \<in> window_key minute ` set silver")
    case True
    then have old: "bucket (pcmd_stream_minute_gold silver) k = [pcmd_minute_agg k ?g]"
      by (simp add: pcmd_minute_bucket)
    show ?thesis
      using dur_stats_untracked [OF u, of k ?g k] key
      by (simp add: pcmd_minute_bucket_append old total_pcmd_minute_agg)
  next
    case False
    then have g: "?g = []" by (force simp: filter_empty_conv image_iff)
    from False have old: "bucket (pcmd_stream_minute_gold silver) k = []"
      by (simp add: pcmd_minute_bucket)
    show ?thesis
      using dur_stats_untracked [OF u, of k "[]" k] key
      by (simp add: pcmd_minute_bucket_append old g total_pcmd_minute_agg dur_stats_empty)
  qed
  have 2: ?others by (simp add: pcmd_minute_bucket_other)
  have 3: ?nulls if ?only
  proof -
    from that have "bucket (pcmd_stream_minute_gold silver) k0 =
        [pcmd_minute_agg k0 (filter (\<lambda>x. window_key minute x = Some k0) silver)]"
      by (simp add: pcmd_minute_bucket)
    moreover from that have
      "dur_stats (pcmd_minute_agg k0 (filter (\<lambda>x. window_key minute x = Some k0) silver)) =
         replicate 9 None"
      by (intro dur_stats_all_untracked) simp
    ultimately show ?thesis by (simp add: total_pcmd_minute_agg)
  qed
  from 1 2 3 show ?thesis by blast
qed

theorem untracked_procedure_counts_only_witness:
  "ProcedureId (fst row_U) \<notin> {Some ''11'', Some ''15'', Some ''16''} \<and>
   window_key minute row_U = Some (clock 10 0 0, Some ''T1'') \<and>
   (\<exists>b'. bucket (pcmd_stream_minute_gold ([row_U] @ [row_U])) (clock 10 0 0, Some ''T1'') = [b'] \<and>
      totalRecords_PCMD b' = 2 \<and> dur_stats b' = replicate 9 None) \<and>
   window_key minute row_U \<noteq> Some (clock 10 1 0, Some ''T1'') \<and>
   bucket (pcmd_stream_minute_gold ([row_U] @ [row_U])) (clock 10 1 0, Some ''T1'') =
   bucket (pcmd_stream_minute_gold [row_U]) (clock 10 1 0, Some ''T1'') \<and>
   Some (clock 10 0 0, Some ''T1'') \<in> window_key minute ` set [row_U] \<and>
   (\<exists>b. bucket (pcmd_stream_minute_gold [row_U]) (clock 10 0 0, Some ''T1'') = [b] \<and>
      dur_stats b = replicate 9 None \<and> totalRecords_PCMD b = 1)"
proof -
  note T = untracked_procedure_counts_only [where r = row_U and silver = "[row_U]"
      and k = "(clock 10 0 0, Some ''T1'')" and ?k0.0 = "(clock 10 0 0, Some ''T1'')"]
  have u: "ProcedureId (fst row_U) \<notin> {Some ''11'', Some ''15'', Some ''16''}"
    by (simp add: row_U_def pcmd_event_def)
  have k: "window_key minute row_U = Some (clock 10 0 0, Some ''T1'')"
    by (simp add: row_U_def scenario_defs)
  have o: "window_key minute row_U \<noteq> Some (clock 10 1 0, Some ''T1'')"
    by (simp add: row_U_def scenario_defs)
  have i: "Some (clock 10 0 0, Some ''T1'') \<in> window_key minute ` set [row_U]"
    by (simp add: k)
  have only: "\<forall>x \<in> set [row_U]. window_key minute x = Some (clock 10 0 0, Some ''T1'') \<longrightarrow>
       ProcedureId (fst x) \<notin> {Some ''11'', Some ''15'', Some ''16''}"
    using u by simp
  from T i only obtain b where
    b: "bucket (pcmd_stream_minute_gold [row_U]) (clock 10 0 0, Some ''T1'') = [b]"
      "dur_stats b = replicate 9 None"
      "totalRecords_PCMD b =
         length [x \<leftarrow> [row_U]. window_key minute x = Some (clock 10 0 0, Some ''T1'')]"
    by blast
  from b(3) have b1: "totalRecords_PCMD b = 1" by (simp add: k)
  from T u k obtain b' where
    b': "bucket (pcmd_stream_minute_gold ([row_U] @ [row_U])) (clock 10 0 0, Some ''T1'') = [b']"
      "totalRecords_PCMD b' =
          sum_list (map totalRecords_PCMD
                     (bucket (pcmd_stream_minute_gold [row_U]) (clock 10 0 0, Some ''T1''))) + 1"
      "dur_stats b' =
          (case bucket (pcmd_stream_minute_gold [row_U]) (clock 10 0 0, Some ''T1'') of
             [] \<Rightarrow> replicate 9 None | b # _ \<Rightarrow> dur_stats b)"
    by blast
  from b'(2,3) b b1 have "totalRecords_PCMD b' = 2 \<and> dur_stats b' = replicate 9 None"
    by simp
  with b'(1) have 1: "\<exists>b'. bucket (pcmd_stream_minute_gold ([row_U] @ [row_U])) (clock 10 0 0, Some ''T1'') = [b'] \<and>
      totalRecords_PCMD b' = 2 \<and> dur_stats b' = replicate 9 None"
    by blast
  from T u o have 2: "bucket (pcmd_stream_minute_gold ([row_U] @ [row_U])) (clock 10 1 0, Some ''T1'') =
   bucket (pcmd_stream_minute_gold [row_U]) (clock 10 1 0, Some ''T1'')"
    by blast
  from b b1 have 3: "\<exists>b. bucket (pcmd_stream_minute_gold [row_U]) (clock 10 0 0, Some ''T1'') = [b] \<and>
      dur_stats b = replicate 9 None \<and> totalRecords_PCMD b = 1"
    by blast
  from u k 1 o 2 i 3 show ?thesis by blast
qed


subsection \<open>Lateness and the PCMD tables\<close>

lemma sum_length_filter_Some:
  "finite A \<Longrightarrow> {k. Some k \<in> f ` set rs} \<subseteq> A \<Longrightarrow>
     (\<Sum>k\<in>A. length (filter (\<lambda>r. f r = Some k) rs)) = length (filter (\<lambda>r. f r \<noteq> None) rs)"
proof (induction rs)
  case Nil
  then show ?case by simp
next
  case (Cons x xs)
  from Cons.prems have sub: "{k. Some k \<in> f ` set xs} \<subseteq> A" by auto
  show ?case
  proof (cases "f x")
    case None
    then show ?thesis using Cons.IH [OF Cons.prems(1) sub] by simp
  next
    case (Some k0)
    with Cons.prems have k0: "k0 \<in> A" by force
    have "(\<Sum>k\<in>A. length (filter (\<lambda>r. f r = Some k) (x # xs))) =
        (\<Sum>k\<in>A. (if k0 = k then 1 else 0) + length (filter (\<lambda>r. f r = Some k) xs))"
      using Some by (intro sum.cong) auto
    also have "\<dots> = (\<Sum>k\<in>A. if k0 = k then 1 else 0) +
        (\<Sum>k\<in>A. length (filter (\<lambda>r. f r = Some k) xs))"
      by (simp add: sum.distrib)
    also have "\<dots> = 1 + length (filter (\<lambda>r. f r \<noteq> None) xs)"
      using Cons.IH [OF Cons.prems(1) sub] Cons.prems(1) k0 by (simp add: sum.delta')
    finally show ?thesis using Some by simp
  qed
qed

lemma group_by_window_total:
  "sum_list (map (\<lambda>(k, g). length g) (group_by_window f rs)) =
     length (filter (\<lambda>r. f r \<noteq> None) rs)"
proof -
  have "sum_list (map (\<lambda>(k, g). length g) (group_by_window f rs)) =
        sum_list (map (\<lambda>k. length (filter (\<lambda>r. f r = Some k) rs)) (remdups (List.map_filter f rs)))"
    by (simp add: group_by_window_def comp_def)
  also have "\<dots> = (\<Sum>k\<in>set (List.map_filter f rs). length (filter (\<lambda>r. f r = Some k) rs))"
    by (simp add: sum_list_distinct_conv_sum_set)
  also have "\<dots> = length (filter (\<lambda>r. f r \<noteq> None) rs)"
    by (rule sum_length_filter_Some) (auto simp: set_map_filter)
  finally show ?thesis .
qed

lemma window_key_None: "window_key d r = None \<longleftrightarrow> event_ts (fst r) = None"
  by (simp add: window_key_def split: option.splits)

lemma cdr_minute_total:
  "sum_list (map totalRecords_CDR (cdr_stream_minute_gold rs)) =
     length [x \<leftarrow> rs. event_ts (fst x) \<noteq> None]"
proof -
  have "map totalRecords_CDR (cdr_stream_minute_gold rs) =
        map (\<lambda>(k, g). length g) (group_by_window (window_key minute) rs)"
    by (simp add: cdr_stream_minute_gold_def cdr_minute_agg_def F_count_lit split_def)
  then show ?thesis by (simp add: group_by_window_total window_key_None)
qed

lemma pcmd_minute_total:
  "sum_list (map totalRecords_PCMD (pcmd_stream_minute_gold rs)) =
     length [x \<leftarrow> rs. event_ts (fst x) \<noteq> None]"
proof -
  have "map totalRecords_PCMD (pcmd_stream_minute_gold rs) =
        map (\<lambda>(k, g). length g) (group_by_window (window_key minute) rs)"
    by (simp add: pcmd_stream_minute_gold_def pcmd_minute_agg_def F_count_lit split_def)
  then show ?thesis by (simp add: group_by_window_total window_key_None)
qed

lemma cdr_minute_bucket_of_row:
  assumes "r \<in> set rs" "window_key minute r = Some k"
  shows "\<exists>b. bucket (cdr_stream_minute_gold rs) k = [b] \<and>
             totalRecords_CDR b = length [x \<leftarrow> rs. window_key minute x = Some k] \<and>
             1 \<le> totalRecords_CDR b"
proof -
  from assms have "Some k \<in> window_key minute ` set rs" by force
  then have "bucket (cdr_stream_minute_gold rs) k =
      [cdr_minute_agg k (filter (\<lambda>x. window_key minute x = Some k) rs)]"
    by (simp add: cdr_minute_bucket)
  moreover from assms have "1 \<le> length (filter (\<lambda>x. window_key minute x = Some k) rs)"
    by (auto simp: Suc_le_eq filter_empty_conv)
  ultimately show ?thesis by (simp add: counts_nth counts_cdr_minute_agg)
qed

lemma cdr_minute_bucket_untimed:
  "event_ts (fst z) = None \<Longrightarrow>
     bucket (cdr_stream_minute_gold (xs @ z # ys)) k = bucket (cdr_stream_minute_gold (xs @ ys)) k"
  by (auto simp: cdr_minute_bucket window_key_def image_iff)

lemma pcmd_minute_bucket_untimed:
  "event_ts (fst z) = None \<Longrightarrow>
     bucket (pcmd_stream_minute_gold (xs @ z # ys)) k = bucket (pcmd_stream_minute_gold (xs @ ys)) k"
  by (auto simp: pcmd_minute_bucket window_key_def image_iff)

text \<open>
  Claim C8 fails on the pipeline. With an allowed lateness of one minute, a row of 10:10:00
  has arrived, so the window starting 10:00:00 is sealed in the specification's sense; the
  row of 10:00:15 that arrives next is nevertheless counted in the bucket of 10:00:00.
\<close>

theorem watermark_counterexample:
  "spec_sealed minute [row_L1] (clock 10 0 0) \<and>
   window_key minute row_L2 = Some (clock 10 0 0, Some ''T1'') \<and>
   map totalRecords_CDR (bucket (cdr_stream_minute_gold ([row_L1] @ [row_L2])) (clock 10 0 0, Some ''T1'')) = [1] \<and>
   map dropped (bucket (cdr_stream_minute_gold ([row_L1] @ [row_L2])) (clock 10 0 0, Some ''T1'')) = [1]"
proof -
  have k: "window_key minute row_L2 = Some (clock 10 0 0, Some ''T1'')"
    by (simp add: row_L2_def scenario_defs)
  have s: "spec_sealed minute [row_L1] (clock 10 0 0)"
    by (simp add: spec_sealed_def row_L1_def scenario_defs)
  have b: "bucket (cdr_stream_minute_gold ([row_L1] @ [row_L2])) (clock 10 0 0, Some ''T1'') =
      [cdr_minute_agg (clock 10 0 0, Some ''T1'') [row_L2]]"
    using cdr_minute_bucket_append [OF k, of "[row_L1]"]
    by (simp add: row_L1_def scenario_defs)
  have c: "counts (cdr_minute_agg (clock 10 0 0, Some ''T1'') [row_L2]) = [1, 0, 0, 0, 1, 1]"
    by (simp add: counts_cdr_minute_agg row_L2_def cdr_event_def)
  from s k b c show ?thesis by (simp add: counts_nth)
qed

text \<open>
  Claim C8, amended. The minute tables apply no watermark. Every enriched row that has
  an event time, wherever it stands in the order of arrival, has exactly one minute row
  under the key (floor of its event time to the minute, its tower), whose total counts all
  rows of that key, the row itself among them. An enriched row whose \<open>event_ts\<close> is null
  is in no bucket: every bucket is as it is without the row. The totals of a minute table
  add up to the number of enriched rows that have an event time, so no row is dropped for
  lateness. This holds for the CDR and the PCMD table.
\<close>

theorem no_watermark_every_event_counted:
  fixes r z :: "cdr \<times> tower" and q y :: "pcmd \<times> tower"
  shows
  "(event_ts (fst r) = Some ts \<longrightarrow>
     (\<exists>b. bucket (cdr_stream_minute_gold (arrived @ r # later))
             (window_start minute ts, event.towerId (fst r)) = [b] \<and>
          totalRecords_CDR b =
            length [x \<leftarrow> arrived @ r # later. window_key minute x = window_key minute r] \<and>
          1 \<le> totalRecords_CDR b)) \<and>
   (event_ts (fst z) = None \<longrightarrow>
      bucket (cdr_stream_minute_gold (arrived @ z # later)) k =
      bucket (cdr_stream_minute_gold (arrived @ later)) k) \<and>
   sum_list (map totalRecords_CDR (cdr_stream_minute_gold silver)) =
     length [x \<leftarrow> silver. event_ts (fst x) \<noteq> None] \<and>
   (event_ts (fst q) = Some pts \<longrightarrow>
     (\<exists>b. bucket (pcmd_stream_minute_gold (parrived @ q # plater))
             (window_start minute pts, event.towerId (fst q)) = [b] \<and>
          totalRecords_PCMD b =
            length [x \<leftarrow> parrived @ q # plater. window_key minute x = window_key minute q] \<and>
          1 \<le> totalRecords_PCMD b)) \<and>
   (event_ts (fst y) = None \<longrightarrow>
      bucket (pcmd_stream_minute_gold (parrived @ y # plater)) k =
      bucket (pcmd_stream_minute_gold (parrived @ plater)) k) \<and>
   sum_list (map totalRecords_PCMD (pcmd_stream_minute_gold psilver)) =
     length [x \<leftarrow> psilver. event_ts (fst x) \<noteq> None]"
  (is "(?rt \<longrightarrow> ?cdr) \<and> (?zn \<longrightarrow> ?cdr_none) \<and> ?cdr_total \<and>
       (?qt \<longrightarrow> ?pcmd) \<and> (?yn \<longrightarrow> ?pcmd_none) \<and> ?pcmd_total")
proof -
  have 1: ?cdr if t: ?rt
  proof -
    from t have k: "window_key minute r = Some (window_start minute ts, event.towerId (fst r))"
      by (simp add: window_key_def)
    show ?thesis
      using cdr_minute_bucket_of_row [OF _ k, of "arrived @ r # later"] by (simp add: k)
  qed
  have 2: ?cdr_none if ?zn using that by (rule cdr_minute_bucket_untimed)
  have 3: ?cdr_total by (rule cdr_minute_total)
  have 4: ?pcmd if t: ?qt
  proof -
    from t have k: "window_key minute q = Some (window_start minute pts, event.towerId (fst q))"
      by (simp add: window_key_def)
    show ?thesis
      using pcmd_minute_bucket_of_row [OF _ k, of "parrived @ q # plater"] by (simp add: k)
  qed
  have 5: ?pcmd_none if ?yn using that by (rule pcmd_minute_bucket_untimed)
  have 6: ?pcmd_total by (rule pcmd_minute_total)
  from 1 2 3 4 5 6 show ?thesis by blast
qed


theorem no_watermark_every_event_counted_witness:
  "event_ts (fst row_L2) = Some (clock 10 0 15) \<and>
   (\<exists>b. bucket (cdr_stream_minute_gold ([row_L1] @ row_L2 # [])) (clock 10 0 0, Some ''T1'') = [b] \<and>
        totalRecords_CDR b = 1) \<and>
   event_ts (fst row_Z) = None \<and>
   bucket (cdr_stream_minute_gold ([row_L1] @ row_Z # [])) (clock 10 10 0, Some ''T1'') =
   bucket (cdr_stream_minute_gold ([row_L1] @ [])) (clock 10 10 0, Some ''T1'') \<and>
   event_ts (fst row_P2) = Some (clock 10 0 45) \<and>
   (\<exists>b. bucket (pcmd_stream_minute_gold ([row_P1] @ row_P2 # [])) (clock 10 0 0, Some ''T1'') = [b] \<and>
        totalRecords_PCMD b = 2) \<and>
   event_ts (fst row_Y) = None \<and>
   bucket (pcmd_stream_minute_gold ([row_P1] @ row_Y # [])) (clock 10 10 0, Some ''T1'') =
   bucket (pcmd_stream_minute_gold ([row_P1] @ [])) (clock 10 10 0, Some ''T1'')"
proof -
  note T = no_watermark_every_event_counted [where r = row_L2 and ts = "clock 10 0 15"
      and arrived = "[row_L1]" and later = "[]" and z = row_Z
      and k = "(clock 10 10 0, Some ''T1'')" and q = row_P2 and pts = "clock 10 0 45"
      and parrived = "[row_P1]" and plater = "[]" and y = row_Y]
  have r: "event_ts (fst row_L2) = Some (clock 10 0 15)"
    by (simp add: row_L2_def cdr_event_def)
  have z: "event_ts (fst row_Z) = None" by (simp add: row_Z_def)
  have q: "event_ts (fst row_P2) = Some (clock 10 0 45)"
    by (simp add: row_P2_def pcmd_event_def)
  have y: "event_ts (fst row_Y) = None" by (simp add: row_Y_def)
  have kr: "(window_start minute (clock 10 0 15), event.towerId (fst row_L2)) =
      (clock 10 0 0, Some ''T1'')"
    by (simp add: row_L2_def scenario_defs)
  have kq: "(window_start minute (clock 10 0 45), event.towerId (fst row_P2)) =
      (clock 10 0 0, Some ''T1'')"
    by (simp add: row_P2_def scenario_defs)
  from T r obtain b where
    b: "bucket (cdr_stream_minute_gold ([row_L1] @ row_L2 # []))
          (window_start minute (clock 10 0 15), event.towerId (fst row_L2)) = [b]"
    and n: "totalRecords_CDR b =
          length [x \<leftarrow> [row_L1] @ row_L2 # []. window_key minute x = window_key minute row_L2]"
    by blast
  from n have "totalRecords_CDR b = 1"
    by (simp add: row_L1_def row_L2_def scenario_defs)
  with b have 1: "\<exists>b. bucket (cdr_stream_minute_gold ([row_L1] @ row_L2 # []))
      (clock 10 0 0, Some ''T1'') = [b] \<and> totalRecords_CDR b = 1"
    unfolding kr by blast
  from T z have 2: "bucket (cdr_stream_minute_gold ([row_L1] @ row_Z # [])) (clock 10 10 0, Some ''T1'') =
      bucket (cdr_stream_minute_gold ([row_L1] @ [])) (clock 10 10 0, Some ''T1'')"
    by blast
  from T q obtain c where
    c: "bucket (pcmd_stream_minute_gold ([row_P1] @ row_P2 # []))
          (window_start minute (clock 10 0 45), event.towerId (fst row_P2)) = [c]"
    and m: "totalRecords_PCMD c =
          length [x \<leftarrow> [row_P1] @ row_P2 # []. window_key minute x = window_key minute row_P2]"
    by blast
  from m have "totalRecords_PCMD c = 2"
    by (simp add: row_P1_def row_P2_def scenario_defs)
  with c have 3: "\<exists>b. bucket (pcmd_stream_minute_gold ([row_P1] @ row_P2 # []))
      (clock 10 0 0, Some ''T1'') = [b] \<and> totalRecords_PCMD b = 2"
    unfolding kq by blast
  from T y have 4: "bucket (pcmd_stream_minute_gold ([row_P1] @ row_Y # [])) (clock 10 10 0, Some ''T1'') =
      bucket (pcmd_stream_minute_gold ([row_P1] @ [])) (clock 10 10 0, Some ''T1'')"
    by blast
  from r z q y 1 2 3 4 show ?thesis by blast
qed

lemma pcmd_minute_rows:
  assumes "b \<in> set (pcmd_stream_minute_gold rs)"
  shows "b = pcmd_minute_agg (date b, gold.towerId b)
               (filter (\<lambda>x. window_key minute x = Some (date b, gold.towerId b)) rs)"
proof -
  from assms obtain r k where "r \<in> set rs" "window_key minute r = Some k"
    and b: "b = pcmd_minute_agg k (filter (\<lambda>x. window_key minute x = Some k) rs)"
    unfolding pcmd_stream_minute_gold_def by (blast dest: group_by_window_rows)
  from b have "(date b, gold.towerId b) = k"
    by (simp add: pcmd_minute_agg_def)
  with b show ?thesis by simp
qed

text \<open>
  Claim C7 fails on the pipeline. Two PCMD events of procedure 11 in two minutes of one
  hour give two rows of the PCMD minute table, with averages 10 and 20; the hour and day
  tables hold no row for them.
\<close>

theorem pcmd_rollup_counterexample:
  "map date (minute_pcmd (pipeline [] [pcmd_event ''T1'' (clock 10 0 15) ''11'' 10,
                                       pcmd_event ''T1'' (clock 10 1 15) ''11'' 20] [tower_T1])) =
     [clock 10 0 0, clock 10 1 0] \<and>
   map avg_dur_request_to_release_bearer
       (minute_pcmd (pipeline [] [pcmd_event ''T1'' (clock 10 0 15) ''11'' 10,
                                  pcmd_event ''T1'' (clock 10 1 15) ''11'' 20] [tower_T1])) =
     [Some 10, Some 20] \<and>
   hour_cdr (pipeline [] [pcmd_event ''T1'' (clock 10 0 15) ''11'' 10,
                          pcmd_event ''T1'' (clock 10 1 15) ''11'' 20] [tower_T1]) = [] \<and>
   day_cdr (pipeline [] [pcmd_event ''T1'' (clock 10 0 15) ''11'' 10,
                         pcmd_event ''T1'' (clock 10 1 15) ''11'' 20] [tower_T1]) = []"
  by (simp add: pipeline_def pcmd_stream_minute_gold_def pcmd_silver_eq
      cdr_silver_eq cdr_stream_minute_gold_def cdr_stream_hour_gold_def
      cdr_stream_day_gold_def join_def
      apply_expectations_def dropped_by_pcmd sql_eq_def group_by_def group_by_window_def
      List.map_filter_def window_key_def
      window_start_def minute_def clock_def pcmd_event_def tower_T1_def pcmd_minute_agg_def
      dur_of_def F_when_def F_lit_def F_avg_def)

text \<open>
  Claim C7, amended. The hour and day tables are rolled up from the CDR minute table alone
  and do not depend on the PCMD stream: PCMD aggregates exist per minute only. In a row of
  the PCMD minute table, the average of a tracked procedure is the sum of the durations of
  that procedure's rows in the bucket divided by their number, computed once from the rows,
  and the maximum and minimum are the greatest and least of those durations; all three are
  null when the bucket has no such duration.
\<close>

theorem pcmd_minute_only:
  fixes silver :: "(pcmd \<times> tower) list"
  shows
  "hour_cdr (pipeline cs ps tw) = cdr_stream_hour_gold (minute_cdr (pipeline cs ps' tw)) \<and>
   day_cdr (pipeline cs ps tw) = cdr_stream_day_gold (minute_cdr (pipeline cs ps' tw)) \<and>
   (b \<in> set (pcmd_stream_minute_gold silver) \<and> (p, av, mx, mn) \<in> set tracked \<and>
    ds = non_null (map (\<lambda>x. ProcedureDuration (fst x))
           [x \<leftarrow> silver. window_key minute x = Some (date b, gold.towerId b) \<and>
                          ProcedureId (fst x) = Some p]) \<longrightarrow>
      av b = (if ds = [] then None else Some (sum_list ds / of_nat (length ds))) \<and>
      mx b = (if ds = [] then None else Some (Max (set ds))) \<and>
      mn b = (if ds = [] then None else Some (Min (set ds))))"
  (is "?hour \<and> ?day \<and> (?h \<longrightarrow> ?stats)")
proof -
  have 1: ?hour and 2: ?day by (simp_all add: pipeline_def)
  have 3: ?stats if h: ?h
  proof -
    let ?k = "(date b, gold.towerId b)"
    let ?g = "filter (\<lambda>x. window_key minute x = Some ?k) silver"
    from h have b: "b = pcmd_minute_agg ?k ?g" by (intro pcmd_minute_rows) simp
    from h have ds: "non_null (dur_of p ?g) = ds"
      by (simp add: non_null_dur_of conj_commute)
    from h have cols: "av (pcmd_minute_agg ?k ?g) = F_avg (dur_of p ?g)"
      "mx (pcmd_minute_agg ?k ?g) = F_max (dur_of p ?g)"
      "mn (pcmd_minute_agg ?k ?g) = F_min (dur_of p ?g)"
      using tracked_columns [of p av mx mn ?k ?g] by simp_all
    have "av (pcmd_minute_agg ?k ?g) = (if ds = [] then None else Some (sum_list ds / of_nat (length ds))) \<and>
      mx (pcmd_minute_agg ?k ?g) = (if ds = [] then None else Some (Max (set ds))) \<and>
      mn (pcmd_minute_agg ?k ?g) = (if ds = [] then None else Some (Min (set ds)))"
      unfolding cols by (simp add: F_avg_eq F_max_eq F_min_eq ds)
    with b show ?thesis by simp
  qed
  from 1 2 3 show ?thesis by blast
qed

theorem pcmd_minute_only_witness:
  "pcmd_minute_agg (clock 10 0 0, Some ''T1'') [row_P1, row_P2]
     \<in> set (pcmd_stream_minute_gold [row_P1, row_P2]) \<and>
   (''11'', avg_dur_request_to_release_bearer, max_dur_request_to_release_bearer,
    min_dur_request_to_release_bearer) \<in> set tracked \<and>
   avg_dur_request_to_release_bearer (pcmd_minute_agg (clock 10 0 0, Some ''T1'') [row_P1, row_P2]) =
     Some (5 / 2) \<and>
   max_dur_request_to_release_bearer (pcmd_minute_agg (clock 10 0 0, Some ''T1'') [row_P1, row_P2]) =
     Some 10 \<and>
   min_dur_request_to_release_bearer (pcmd_minute_agg (clock 10 0 0, Some ''T1'') [row_P1, row_P2]) =
     Some (- 5)"
proof -
  let ?b = "pcmd_minute_agg (clock 10 0 0, Some ''T1'') [row_P1, row_P2]"
  note T = pcmd_minute_only [where b = ?b and silver = "[row_P1, row_P2]" and p = "''11''"
      and av = avg_dur_request_to_release_bearer and mx = max_dur_request_to_release_bearer
      and mn = min_dur_request_to_release_bearer and ds = "[10, - 5]"]
  have m: "?b \<in> set (pcmd_stream_minute_gold [row_P1, row_P2])"
    by (simp add: pcmd_stream_minute_gold_def group_by_window_def List.map_filter_def
        row_P1_def row_P2_def scenario_defs)
  have t: "(''11'', avg_dur_request_to_release_bearer, max_dur_request_to_release_bearer,
    min_dur_request_to_release_bearer) \<in> set tracked"
    by (simp add: tracked_def)
  have k: "(date ?b, gold.towerId ?b) = (clock 10 0 0, Some ''T1'')"
    by (rule pcmd_minute_agg_key)
  have ds: "[10, - 5] = non_null (map (\<lambda>x. ProcedureDuration (fst x))
           [x \<leftarrow> [row_P1, row_P2]. window_key minute x = Some (date ?b, gold.towerId ?b) \<and>
                          ProcedureId (fst x) = Some ''11''])"
    unfolding k by (simp add: row_P1_def row_P2_def scenario_defs)
  from T m t ds have
    "avg_dur_request_to_release_bearer ?b =
       (if [10, - 5 :: rat] = [] then None else Some (sum_list [10, - 5] / of_nat (length [10, - 5 :: rat]))) \<and>
     max_dur_request_to_release_bearer ?b =
       (if [10, - 5 :: rat] = [] then None else Some (Max (set [10, - 5]))) \<and>
     min_dur_request_to_release_bearer ?b =
       (if [10, - 5 :: rat] = [] then None else Some (Min (set [10, - 5])))"
    by blast
  then have "avg_dur_request_to_release_bearer ?b = Some (5 / 2) \<and>
     max_dur_request_to_release_bearer ?b = Some 10 \<and>
     min_dur_request_to_release_bearer ?b = Some (- 5)"
    by simp
  with m t show ?thesis by blast
qed

end
